theory Spec2Isabelle
  imports Main "HOL-Library.Char_ord" "HOL-Library.List_Lexorder"
begin

section \<open>The custom hostname client of cloudflare-go (custom\_hostname.go)\<close>

text \<open>
  The file is a thin binding: every operation builds a path, hands it to the
  request dispatcher, decodes the JSON body and wraps the errors.  Go strings are byte
  sequences, so they are \<^typ>\<open>string\<close>; a Go slice or map may be nil, so it is an
  option (\<open>None\<close> is nil); a Go \<open>(value, error)\<close> result is a pair whose second
  component is \<open>None\<close> for a nil error.
\<close>

subsection \<open>Errors\<close>

text \<open>
  \<open>errors.New\<close> and \<open>errors.Wrap\<close> of github.com/pkg/errors.  An error that comes from
  the dispatcher or from the JSON decoder is any value of the type.
\<close>

datatype error = New string | Wrap error string

type_synonym bytes = string

type_synonym 'a slice = "'a list option"

definition elems :: "'a slice \<Rightarrow> 'a list" where
  "elems s = (case s of None \<Rightarrow> [] | Some xs \<Rightarrow> xs)"

subsection \<open>JSON values\<close>

text \<open>
  A JSON document as a tree; a number keeps its literal.  An object keeps its members in
  the order they are written.
\<close>

datatype json =
    JNull
  | JBool bool
  | JNumber string
  | JString string
  | JArray "json list"
  | JObject "(string \<times> json) list"

subsection \<open>The data model (lines 11--89)\<close>

type_synonym CustomHostnameStatus = string

definition PENDING :: CustomHostnameStatus where "PENDING = ''pending''"
definition ACTIVE :: CustomHostnameStatus where "ACTIVE = ''active''"
definition MOVED :: CustomHostnameStatus where "MOVED = ''moved''"
definition REMOVED :: CustomHostnameStatus where "REMOVED = ''removed''"

record CustomHostnameSSLSettings =
  HTTP2 :: string
  TLS13 :: string
  MinTLSVersion :: string
  Ciphers :: "string slice"

record CustomHostnameOwnershipVerification =
  OV_Type :: string
  OV_Name :: string
  OV_Value :: string

record CustomHostnameSSL =
  SSL_Status :: string
  Method :: string
  SSL_Type :: string
  CnameTarget :: string
  CnameName :: string
  Settings :: CustomHostnameSSLSettings

text \<open>\<open>map[string]interface{}\<close>: the values are what they serialise to.\<close>

type_synonym CustomMetadata = "(string \<times> json) list option"

record CustomHostname =
  ID :: string
  Hostname :: string
  CustomOriginServer :: string
  SSL :: CustomHostnameSSL
  CustomMetadata :: CustomMetadata
  Status :: CustomHostnameStatus
  VerificationErrors :: "string slice"
  OwnershipVerification :: CustomHostnameOwnershipVerification

record CustomHostnameFallbackOrigin =
  Origin :: string
  FO_Status :: string
  FO_Errors :: "string slice"

text \<open>
  Modelled from the spec: \<open>ResultInfo\<close> is declared in another file of the package.
  The spec names its counters: total count, page, per-page, total pages.
\<close>

record ResultInfo =
  Page :: int
  PerPage :: int
  TotalPages :: int
  Total :: int

text \<open>
  The response envelopes.  The embedded \<open>Response\<close> block is declared in another file
  of the package; its type is the parameter \<open>'r\<close>.
\<close>

record 'r CustomHostnameResponse =
  Result :: CustomHostname
  Response :: 'r

record 'r CustomHostnameListResponse =
  List_Result :: "CustomHostname slice"
  List_Response :: 'r
  List_ResultInfo :: ResultInfo

record 'r CustomHostnameFallbackOriginResponse =
  FO_Result :: CustomHostnameFallbackOrigin
  FO_Response :: 'r

subsection \<open>Zero values\<close>

definition zero_CustomHostnameSSLSettings :: CustomHostnameSSLSettings where
  "zero_CustomHostnameSSLSettings =
     \<lparr>HTTP2 = '''', TLS13 = '''', MinTLSVersion = '''', Ciphers = None\<rparr>"

definition zero_CustomHostnameOwnershipVerification :: CustomHostnameOwnershipVerification where
  "zero_CustomHostnameOwnershipVerification = \<lparr>OV_Type = '''', OV_Name = '''', OV_Value = ''''\<rparr>"

definition zero_CustomHostnameSSL :: CustomHostnameSSL where
  "zero_CustomHostnameSSL =
     \<lparr>SSL_Status = '''', Method = '''', SSL_Type = '''', CnameTarget = '''', CnameName = '''',
      Settings = zero_CustomHostnameSSLSettings\<rparr>"

definition zero_CustomHostname :: CustomHostname where
  "zero_CustomHostname =
     \<lparr>ID = '''', Hostname = '''', CustomOriginServer = '''', SSL = zero_CustomHostnameSSL,
      CustomMetadata = None, Status = '''', VerificationErrors = None,
      OwnershipVerification = zero_CustomHostnameOwnershipVerification\<rparr>"

definition zero_CustomHostnameFallbackOrigin :: CustomHostnameFallbackOrigin where
  "zero_CustomHostnameFallbackOrigin = \<lparr>Origin = '''', FO_Status = '''', FO_Errors = None\<rparr>"

definition zero_ResultInfo :: ResultInfo where
  "zero_ResultInfo = \<lparr>Page = 0, PerPage = 0, TotalPages = 0, Total = 0\<rparr>"

subsection \<open>Serialisation of the records (the \<open>json\<close> tags of lines 26--63 and 79--83)\<close>

text \<open>
  encoding/json writes the fields of a struct in declaration order.  A field tagged
  \<open>omitempty\<close> is left out when its value is empty, and the empty values are false, 0,
  a nil pointer, a nil interface value, and any array, slice, map or string of length
  zero.  A struct is never empty, so the tag has no effect on a field of struct type.
  A map is written with its keys sorted.
\<close>

definition omitempty_string :: "string \<Rightarrow> string \<Rightarrow> (string \<times> json) list" where
  "omitempty_string key s = (if s = [] then [] else [(key, JString s)])"

definition omitempty_strings :: "string \<Rightarrow> string slice \<Rightarrow> (string \<times> json) list" where
  "omitempty_strings key xs =
     (if elems xs = [] then [] else [(key, JArray (map JString (elems xs)))])"

definition omitempty_map :: "string \<Rightarrow> CustomMetadata \<Rightarrow> (string \<times> json) list" where
  "omitempty_map key m =
     (if elems m = [] then [] else [(key, JObject (sort_key fst (elems m)))])"

definition omitempty_struct :: "string \<Rightarrow> json \<Rightarrow> (string \<times> json) list" where
  "omitempty_struct key j = [(key, j)]"

definition marshal_CustomHostnameSSLSettings :: "CustomHostnameSSLSettings \<Rightarrow> json" where
  "marshal_CustomHostnameSSLSettings s =
     JObject (omitempty_string ''http2'' (HTTP2 s)
            @ omitempty_string ''tls_1_3'' (TLS13 s)
            @ omitempty_string ''min_tls_version'' (MinTLSVersion s)
            @ omitempty_strings ''ciphers'' (Ciphers s))"

definition marshal_CustomHostnameOwnershipVerification ::
    "CustomHostnameOwnershipVerification \<Rightarrow> json" where
  "marshal_CustomHostnameOwnershipVerification v =
     JObject (omitempty_string ''type'' (OV_Type v)
            @ omitempty_string ''name'' (OV_Name v)
            @ omitempty_string ''value'' (OV_Value v))"

definition marshal_CustomHostnameSSL :: "CustomHostnameSSL \<Rightarrow> json" where
  "marshal_CustomHostnameSSL s =
     JObject (omitempty_string ''status'' (SSL_Status s)
            @ omitempty_string ''method'' (Method s)
            @ omitempty_string ''type'' (SSL_Type s)
            @ omitempty_string ''cname_target'' (CnameTarget s)
            @ omitempty_string ''cname'' (CnameName s)
            @ omitempty_struct ''settings'' (marshal_CustomHostnameSSLSettings (Settings s)))"

definition marshal_CustomHostname :: "CustomHostname \<Rightarrow> json" where
  "marshal_CustomHostname ch =
     JObject (omitempty_string ''id'' (ID ch)
            @ omitempty_string ''hostname'' (Hostname ch)
            @ omitempty_string ''custom_origin_server'' (CustomOriginServer ch)
            @ omitempty_struct ''ssl'' (marshal_CustomHostnameSSL (SSL ch))
            @ omitempty_map ''custom_metadata'' (CustomMetadata ch)
            @ omitempty_string ''status'' (Status ch)
            @ omitempty_strings ''verification_errors'' (VerificationErrors ch)
            @ omitempty_struct ''ownership_verification''
                (marshal_CustomHostnameOwnershipVerification (OwnershipVerification ch)))"

definition marshal_CustomHostnameFallbackOrigin :: "CustomHostnameFallbackOrigin \<Rightarrow> json" where
  "marshal_CustomHostnameFallbackOrigin fo =
     JObject (omitempty_string ''origin'' (Origin fo)
            @ omitempty_string ''status'' (FO_Status fo)
            @ omitempty_strings ''errors'' (FO_Errors fo))"

text \<open>The members of an object, and whether a key is among them.\<close>

definition members :: "json \<Rightarrow> (string \<times> json) list" where
  "members j = (case j of JObject ms \<Rightarrow> ms | _ \<Rightarrow> [])"

definition has_key :: "string \<Rightarrow> json \<Rightarrow> bool" where
  "has_key key j = (key \<in> set (map fst (members j)))"

subsection \<open>strconv.Itoa and net/url, as the file uses them\<close>

text \<open>
  \<open>strconv.Itoa\<close>: the decimal digits of the number, most significant first, after a
  minus sign when it is negative.  The page number is only rendered, never computed
  with, so it is an unbounded \<^typ>\<open>int\<close>.
\<close>

definition digits :: string where
  "digits = ''0123456789''"

function formatBits :: "nat \<Rightarrow> string" where
  "formatBits n = (if n < 10 then [digits ! n] else formatBits (n div 10) @ [digits ! (n mod 10)])"
  by pat_completeness auto
termination
  by (relation "measure (\<lambda>n. n)") auto

declare formatBits.simps [simp del]

definition Itoa :: "int \<Rightarrow> string" where
  "Itoa i = (if i < 0 then CHR ''-'' # formatBits (nat (- i)) else formatBits (nat i))"

text \<open>
  \<open>url.QueryEscape\<close>: letters, digits and \<open>- _ . ~\<close> stand for themselves, a space
  becomes \<open>+\<close>, every other byte becomes \<open>%\<close> and its two upper-case hexadecimal
  digits.
\<close>

definition in_range :: "char \<Rightarrow> char \<Rightarrow> char \<Rightarrow> bool" where
  "in_range lo hi c = (of_char lo \<le> (of_char c :: nat) \<and> (of_char c :: nat) \<le> of_char hi)"

definition alphanum :: "char \<Rightarrow> bool" where
  "alphanum c =
     (in_range (CHR ''a'') (CHR ''z'') c \<or> in_range (CHR ''A'') (CHR ''Z'') c
      \<or> in_range (CHR ''0'') (CHR ''9'') c)"

definition shouldEscape :: "char \<Rightarrow> bool" where
  "shouldEscape c = (if alphanum c then False else if c \<in> set ''-_.~'' then False else True)"

definition upperhex :: string where
  "upperhex = ''0123456789ABCDEF''"

definition escape_byte :: "char \<Rightarrow> string" where
  "escape_byte c =
     (if c = CHR '' '' then ''+''
      else if shouldEscape c
        then [CHR ''%'', upperhex ! (of_char c div 16), upperhex ! (of_char c mod 16)]
      else [c])"

definition QueryEscape :: "string \<Rightarrow> string" where
  "QueryEscape s = concat (map escape_byte s)"

text \<open>
  \<open>url.Values\<close> is a map from a key to its values; the file only calls \<open>Set\<close> (which
  replaces the values of a key) and \<open>Encode\<close> (which writes \<open>key=value\<close> for every
  value, the keys sorted, joined by \<open>&\<close>).
\<close>

type_synonym Values = "(string \<times> string list) list"

fun Values_Set :: "string \<Rightarrow> string \<Rightarrow> Values \<Rightarrow> Values" where
  "Values_Set key val [] = [(key, [val])]"
| "Values_Set key val (p # ps) =
     (if fst p = key then (key, [val]) # ps else p # Values_Set key val ps)"

definition Values_Get :: "Values \<Rightarrow> string \<Rightarrow> string list" where
  "Values_Get v key = (case map_of v key of None \<Rightarrow> [] | Some vs \<Rightarrow> vs)"

fun join_amp :: "string list \<Rightarrow> string" where
  "join_amp [] = []"
| "join_amp [p] = p"
| "join_amp (p # q # ps) = p @ CHR ''&'' # join_amp (q # ps)"

definition Values_Encode :: "Values \<Rightarrow> string" where
  "Values_Encode v =
     join_amp (concat (map (\<lambda>k. map (\<lambda>x. QueryEscape k @ CHR ''='' # QueryEscape x)
                                    (Values_Get v k))
                           (sort (map fst v))))"

text \<open>
  How a reader of the query string finds its parameters: \<open>strings.Split\<close> at every
  \<open>&\<close>.
\<close>

fun split_on :: "char \<Rightarrow> string \<Rightarrow> string list" where
  "split_on c [] = [[]]"
| "split_on c (x # xs) =
     (if x = c then [] # split_on c xs
      else (case split_on c xs of [] \<Rightarrow> [[x]] | p # ps \<Rightarrow> (x # p) # ps))"

subsection \<open>The request dispatcher and the other declarations from outside the file\<close>

text \<open>
  \<open>makeRequest\<close> receives the method, the path and the value to send (\<open>nil\<close>, or one
  of the records of this file).
\<close>

datatype params =
    NoParams
  | SSLParams CustomHostnameSSL
  | HostnameParams CustomHostname
  | FallbackOriginParams CustomHostnameFallbackOrigin

record request =
  req_method :: string
  req_uri :: string
  req_params :: params

text \<open>
  What the file uses and does not declare is a parameter of every operation:
  the dispatcher behind \<open>api.makeRequest\<close> (it answers a request with an error or a
  body, and may change the remote state \<open>'s\<close>), the two message constants
  \<open>errMakeRequestError\<close> and \<open>errUnmarshalError\<close>, and \<open>json.Unmarshal\<close> at each of
  the five target types the file decodes into.  A decoder into a pointer variable
  yields \<open>None\<close> for the document \<open>null\<close>.
\<close>

record ('s, 'r) API =
  dispatch :: "request \<Rightarrow> 's \<Rightarrow> (error + bytes) \<times> 's"
  errMakeRequestError :: string
  errUnmarshalError :: string
  Unmarshal_CustomHostnameResponse_ptr :: "bytes \<Rightarrow> error + 'r CustomHostnameResponse option"
  Unmarshal_CustomHostnameResponse :: "bytes \<Rightarrow> error + 'r CustomHostnameResponse"
  Unmarshal_CustomHostnameListResponse :: "bytes \<Rightarrow> error + 'r CustomHostnameListResponse"
  Unmarshal_CustomHostnameFallbackOriginResponse_ptr ::
    "bytes \<Rightarrow> error + 'r CustomHostnameFallbackOriginResponse option"
  Unmarshal_CustomHostnameFallbackOriginResponse ::
    "bytes \<Rightarrow> error + 'r CustomHostnameFallbackOriginResponse"

text \<open>The world an operation runs in: the remote state, and the requests sent so far.\<close>

record 's world =
  remote :: 's
  sent :: "request list"

text \<open>
  Modelled from the spec: \<open>makeRequest\<close> is a method of the package declared in another
  file.  Its answer is the parameter \<open>dispatch\<close>; the spec gives its contract: (method,
  path, body) to (raw bytes, error), one dispatch attempt per call.  The model appends
  every call to \<open>sent\<close>, so that the requests an operation issues can be counted.
\<close>

definition makeRequest ::
    "('s, 'r) API \<Rightarrow> string \<Rightarrow> string \<Rightarrow> params \<Rightarrow> 's world \<Rightarrow> (error + bytes) \<times> 's world" where
  "makeRequest api m uri p w =
     (let rq = \<lparr>req_method = m, req_uri = uri, req_params = p\<rparr>;
          (res, s') = dispatch api rq (remote w)
      in (res, \<lparr>remote = s', sent = sent w @ [rq]\<rparr>))"

subsection \<open>The operations (lines 91--246)\<close>

definition UpdateCustomHostnameSSL ::
    "('s, 'r) API \<Rightarrow> string \<Rightarrow> string \<Rightarrow> CustomHostnameSSL \<Rightarrow> 's world
      \<Rightarrow> ('r CustomHostnameResponse option \<times> error option) \<times> 's world" where
  "UpdateCustomHostnameSSL api zoneID customHostnameID ssl w =
     (let uri = ''/zones/'' @ zoneID @ ''/custom_hostnames/'' @ customHostnameID;
          (res, w') = makeRequest api ''PATCH'' uri (SSLParams ssl) w
      in case res of
           Inl err \<Rightarrow> ((None, Some (Wrap err (errMakeRequestError api))), w')
         | Inr body \<Rightarrow>
             (case Unmarshal_CustomHostnameResponse_ptr api body of
                Inl err \<Rightarrow> ((None, Some (Wrap err (errUnmarshalError api))), w')
              | Inr response \<Rightarrow> ((response, None), w')))"

definition DeleteCustomHostname ::
    "('s, 'r) API \<Rightarrow> string \<Rightarrow> string \<Rightarrow> 's world \<Rightarrow> error option \<times> 's world" where
  "DeleteCustomHostname api zoneID customHostnameID w =
     (let uri = ''/zones/'' @ zoneID @ ''/custom_hostnames/'' @ customHostnameID;
          (res, w') = makeRequest api ''DELETE'' uri NoParams w
      in case res of
           Inl err \<Rightarrow> (Some (Wrap err (errMakeRequestError api)), w')
         | Inr body \<Rightarrow>
             (case Unmarshal_CustomHostnameResponse_ptr api body of
                Inl err \<Rightarrow> (Some (Wrap err (errUnmarshalError api)), w')
              | Inr response \<Rightarrow> (None, w')))"

definition CreateCustomHostname ::
    "('s, 'r) API \<Rightarrow> string \<Rightarrow> CustomHostname \<Rightarrow> 's world
      \<Rightarrow> ('r CustomHostnameResponse option \<times> error option) \<times> 's world" where
  "CreateCustomHostname api zoneID ch w =
     (let uri = ''/zones/'' @ zoneID @ ''/custom_hostnames'';
          (res, w') = makeRequest api ''POST'' uri (HostnameParams ch) w
      in case res of
           Inl err \<Rightarrow> ((None, Some (Wrap err (errMakeRequestError api))), w')
         | Inr body \<Rightarrow>
             (case Unmarshal_CustomHostnameResponse_ptr api body of
                Inl err \<Rightarrow> ((None, Some (Wrap err (errUnmarshalError api))), w')
              | Inr response \<Rightarrow> ((response, None), w')))"

text \<open>Lines 156--162: the query string of the list request.\<close>

definition CustomHostnames_query :: "int \<Rightarrow> CustomHostname \<Rightarrow> string" where
  "CustomHostnames_query page filter' =
     (let v = [];
          v = Values_Set ''per_page'' ''50'' v;
          v = Values_Set ''page'' (Itoa page) v;
          v = (if Hostname filter' \<noteq> '''' then Values_Set ''hostname'' (Hostname filter') v else v)
      in CHR ''?'' # Values_Encode v)"

definition CustomHostnames ::
    "('s, 'r) API \<Rightarrow> string \<Rightarrow> int \<Rightarrow> CustomHostname \<Rightarrow> 's world
      \<Rightarrow> (CustomHostname slice \<times> ResultInfo \<times> error option) \<times> 's world" where
  "CustomHostnames api zoneID page filter' w =
     (let query = CustomHostnames_query page filter';
          uri = ''/zones/'' @ zoneID @ ''/custom_hostnames'' @ query;
          (res, w') = makeRequest api ''GET'' uri NoParams w
      in case res of
           Inl err \<Rightarrow> ((Some [], zero_ResultInfo, Some (Wrap err (errMakeRequestError api))), w')
         | Inr body \<Rightarrow>
             (case Unmarshal_CustomHostnameListResponse api body of
                Inl err \<Rightarrow>
                  ((Some [], zero_ResultInfo, Some (Wrap err (errMakeRequestError api))), w')
              | Inr customHostnameListResponse \<Rightarrow>
                  ((List_Result customHostnameListResponse,
                    List_ResultInfo customHostnameListResponse, None), w')))"

definition CustomHostname ::
    "('s, 'r) API \<Rightarrow> string \<Rightarrow> string \<Rightarrow> 's world \<Rightarrow> (CustomHostname \<times> error option) \<times> 's world" where
  "CustomHostname api zoneID customHostnameID w =
     (let uri = ''/zones/'' @ zoneID @ ''/custom_hostnames/'' @ customHostnameID;
          (res, w') = makeRequest api ''GET'' uri NoParams w
      in case res of
           Inl err \<Rightarrow> ((zero_CustomHostname, Some (Wrap err (errMakeRequestError api))), w')
         | Inr body \<Rightarrow>
             (case Unmarshal_CustomHostnameResponse api body of
                Inl err \<Rightarrow> ((zero_CustomHostname, Some (Wrap err (errUnmarshalError api))), w')
              | Inr response \<Rightarrow> ((Result response, None), w')))"

text \<open>Lines 203--208: the scan of the listed hostnames, from the first to the last.\<close>

fun CustomHostnameIDByName_scan :: "string \<Rightarrow> CustomHostname list \<Rightarrow> string \<times> error option" where
  "CustomHostnameIDByName_scan hostname [] =
     ('''', Some (New ''CustomHostname could not be found''))"
| "CustomHostnameIDByName_scan hostname (ch # rest) =
     (if Hostname ch = hostname then (ID ch, None)
      else CustomHostnameIDByName_scan hostname rest)"

definition CustomHostnameIDByName ::
    "('s, 'r) API \<Rightarrow> string \<Rightarrow> string \<Rightarrow> 's world \<Rightarrow> (string \<times> error option) \<times> 's world" where
  "CustomHostnameIDByName api zoneID hostname w =
     (let ((customHostnames, _, err), w') =
            CustomHostnames api zoneID 1 (zero_CustomHostname\<lparr>Hostname := hostname\<rparr>) w
      in case err of
           Some e \<Rightarrow> (('''', Some (Wrap e ''CustomHostnames command failed'')), w')
         | None \<Rightarrow> (CustomHostnameIDByName_scan hostname (elems customHostnames), w'))"

definition UpdateCustomHostnameFallbackOrigin ::
    "('s, 'r) API \<Rightarrow> string \<Rightarrow> CustomHostnameFallbackOrigin \<Rightarrow> 's world
      \<Rightarrow> ('r CustomHostnameFallbackOriginResponse option \<times> error option) \<times> 's world" where
  "UpdateCustomHostnameFallbackOrigin api zoneID chfo w =
     (let uri = ''/zones/'' @ zoneID @ ''/custom_hostnames/fallback_origin'';
          (res, w') = makeRequest api ''PUT'' uri (FallbackOriginParams chfo) w
      in case res of
           Inl err \<Rightarrow> ((None, Some (Wrap err (errMakeRequestError api))), w')
         | Inr body \<Rightarrow>
             (case Unmarshal_CustomHostnameFallbackOriginResponse_ptr api body of
                Inl err \<Rightarrow> ((None, Some (Wrap err (errUnmarshalError api))), w')
              | Inr response \<Rightarrow> ((response, None), w')))"

definition CustomHostnameFallbackOrigin ::
    "('s, 'r) API \<Rightarrow> string \<Rightarrow> 's world
      \<Rightarrow> (CustomHostnameFallbackOrigin \<times> error option) \<times> 's world" where
  "CustomHostnameFallbackOrigin api zoneID w =
     (let uri = ''/zones/'' @ zoneID @ ''/custom_hostnames/fallback_origin'';
          (res, w') = makeRequest api ''GET'' uri NoParams w
      in case res of
           Inl err \<Rightarrow>
             ((zero_CustomHostnameFallbackOrigin, Some (Wrap err (errMakeRequestError api))), w')
         | Inr body \<Rightarrow>
             (case Unmarshal_CustomHostnameFallbackOriginResponse api body of
                Inl err \<Rightarrow>
                  ((zero_CustomHostnameFallbackOrigin, Some (Wrap err (errUnmarshalError api))), w')
              | Inr response \<Rightarrow> ((FO_Result response, None), w')))"

subsection \<open>Reading a query string back\<close>

text \<open>
  What the receiving side does with a parameter: \<open>url.QueryUnescape\<close> turns \<open>+\<close> into a
  space and \<open>%XY\<close> into the byte with the hexadecimal digits \<open>XY\<close>, and refuses a
  \<open>%\<close> that two hexadecimal digits do not follow; \<open>strconv.Atoi\<close> reads an optional
  sign and decimal digits.
\<close>

definition unhex :: "char \<Rightarrow> nat option" where
  "unhex c =
     (if in_range (CHR ''0'') (CHR ''9'') c then Some (of_char c - 48)
      else if in_range (CHR ''a'') (CHR ''f'') c then Some (of_char c - 97 + 10)
      else if in_range (CHR ''A'') (CHR ''F'') c then Some (of_char c - 65 + 10)
      else None)"

fun QueryUnescape :: "string \<Rightarrow> string option" where
  "QueryUnescape [] = Some []"
| "QueryUnescape (c # s) =
     (if c = CHR ''%'' then
        (case s of
           h # l # rest \<Rightarrow>
             (case (unhex h, unhex l) of
                (Some a, Some b) \<Rightarrow> map_option ((#) (char_of (16 * a + b))) (QueryUnescape rest)
              | _ \<Rightarrow> None)
         | _ \<Rightarrow> None)
      else if c = CHR ''+'' then map_option ((#) CHR '' '') (QueryUnescape s)
      else map_option ((#) c) (QueryUnescape s))"

definition digit_value :: "char \<Rightarrow> nat option" where
  "digit_value c = (if c \<in> set ''0123456789'' then Some (of_char c - 48) else None)"

fun parse_digits :: "nat \<Rightarrow> string \<Rightarrow> nat option" where
  "parse_digits acc [] = Some acc"
| "parse_digits acc (c # s) =
     (case digit_value c of None \<Rightarrow> None | Some d \<Rightarrow> parse_digits (10 * acc + d) s)"

definition Atoi :: "string \<Rightarrow> int option" where
  "Atoi s =
     (case s of
        [] \<Rightarrow> None
      | c # t \<Rightarrow>
          if c = CHR ''-'' then (if t = [] then None else map_option (\<lambda>n. - int n) (parse_digits 0 t))
          else if c = CHR ''+'' then (if t = [] then None else map_option int (parse_digits 0 t))
          else map_option int (parse_digits 0 s))"

text \<open>
  Reading a whole query string: split it at every \<open>&\<close>, skip an empty piece, cut each
  piece at its first \<open>=\<close> and unescape both sides.
\<close>

definition cut_eq :: "string \<Rightarrow> string \<times> string" where
  "cut_eq p =
     (takeWhile (\<lambda>c. c \<noteq> CHR ''='') p, drop 1 (dropWhile (\<lambda>c. c \<noteq> CHR ''='') p))"

definition read_param :: "string \<Rightarrow> (string \<times> string) option" where
  "read_param p =
     (case QueryUnescape (fst (cut_eq p)) of
        None \<Rightarrow> None
      | Some k \<Rightarrow>
          (case QueryUnescape (snd (cut_eq p)) of None \<Rightarrow> None | Some v \<Rightarrow> Some (k, v)))"

definition read_query :: "string \<Rightarrow> (string \<times> string) list option" where
  "read_query q = those (map read_param (filter (\<lambda>p. p \<noteq> []) (split_on CHR ''&'' q)))"

text \<open>
  What "the decimal rendering" and "URL-encoded" mean, stated apart from the code that
  produces them.  A canonical run of decimal digits is not empty, holds digits only, and
  starts with \<open>0\<close> only when it is the single digit \<open>0\<close>.  The bytes that may stand in
  an encoded query component are the unreserved ones (letters, digits, \<open>- _ . ~\<close>),
  the \<open>%\<close> that opens an escape and the \<open>+\<close> that stands for a space.
\<close>

definition canonical_digits :: "string \<Rightarrow> bool" where
  "canonical_digits ds =
     (ds \<noteq> [] \<and> list_all (\<lambda>c. c \<in> set ''0123456789'') ds
      \<and> (case ds of c # d # rest \<Rightarrow> c \<noteq> CHR ''0'' | _ \<Rightarrow> True))"

definition component_bytes :: string where
  "component_bytes =
     ''ABCDEFGHIJKLMNOPQRSTUVWXYZ'' @ ''abcdefghijklmnopqrstuvwxyz'' @ ''0123456789''
     @ ''-_.~'' @ ''%+''"

subsection \<open>A dispatcher and decoders to run the operations on\<close>

text \<open>
  A stateless remote end that answers every request by \<open>answer\<close>, the two messages, and
  decoders that know three documents and refuse every other body with a syntax error.
\<close>

definition zone :: string where
  "zone = ''023e105f4ecef8ad9ca31a8372d0c353''"

definition world0 :: "unit world" where
  "world0 = \<lparr>remote = (), sent = []\<rparr>"

definition transport_error :: error where
  "transport_error = New ''HTTP status 503: service unavailable''"

definition syntax_error :: error where
  "syntax_error = New ''invalid character looking for beginning of value''"

definition garbage_body :: bytes where
  "garbage_body = ''<html>502 Bad Gateway</html>''"

definition listed :: "string \<Rightarrow> string \<Rightarrow> CustomHostname" where
  "listed i h = zero_CustomHostname\<lparr>ID := i, Hostname := h\<rparr>"

definition three_hostnames :: "CustomHostname list" where
  "three_hostnames =
     [listed ''id-1'' ''b.example.com'', listed ''id-2'' ''a.example.com'',
      listed ''id-3'' ''a.example.com'']"

definition list_body :: bytes where
  \<open>list_body =
     ''{"result":[{"id":"id-1","hostname":"b.example.com"},''
     @ ''{"id":"id-2","hostname":"a.example.com"},''
     @ ''{"id":"id-3","hostname":"a.example.com"}],''
     @ ''"result_info":{"page":1,"per_page":50,"total_pages":1,"total_count":3}}''\<close>

definition list_body51 :: bytes where
  \<open>list_body51 = ''{"result":['' @ concat (replicate 50 ''{},'') @ ''{}]}''\<close>

definition single_body :: bytes where
  \<open>single_body = ''{"result":{"id":"id-2","hostname":"a.example.com"}}''\<close>

definition demo_Unmarshal_list :: "bytes \<Rightarrow> error + unit CustomHostnameListResponse" where
  "demo_Unmarshal_list b =
     (if b = list_body then
        Inr \<lparr>List_Result = Some three_hostnames, List_Response = (),
             List_ResultInfo = \<lparr>Page = 1, PerPage = 50, TotalPages = 1, Total = 3\<rparr>\<rparr>
      else if b = list_body51 then
        Inr \<lparr>List_Result = Some (replicate 51 zero_CustomHostname), List_Response = (),
             List_ResultInfo = zero_ResultInfo\<rparr>
      else Inl syntax_error)"

definition demo_Unmarshal_single :: "bytes \<Rightarrow> error + unit CustomHostnameResponse" where
  "demo_Unmarshal_single b =
     (if b = single_body then Inr \<lparr>Result = listed ''id-2'' ''a.example.com'', Response = ()\<rparr>
      else Inl syntax_error)"

definition demo_api :: "(request \<Rightarrow> error + bytes) \<Rightarrow> (unit, unit) API" where
  "demo_api answer =
     \<lparr>dispatch = (\<lambda>rq s. (answer rq, s)),
      errMakeRequestError = ''error from makeRequest'',
      errUnmarshalError = ''error unmarshalling the JSON response'',
      Unmarshal_CustomHostnameResponse_ptr = (\<lambda>b. map_sum id Some (demo_Unmarshal_single b)),
      Unmarshal_CustomHostnameResponse = demo_Unmarshal_single,
      Unmarshal_CustomHostnameListResponse = demo_Unmarshal_list,
      Unmarshal_CustomHostnameFallbackOriginResponse_ptr = (\<lambda>b. Inl syntax_error),
      Unmarshal_CustomHostnameFallbackOriginResponse = (\<lambda>b. Inl syntax_error)\<rparr>"

definition api_down :: "(unit, unit) API" where
  "api_down = demo_api (\<lambda>rq. Inl transport_error)"

definition api_garbled :: "(unit, unit) API" where
  "api_garbled = demo_api (\<lambda>rq. Inr garbage_body)"

definition api_list :: "(unit, unit) API" where
  "api_list = demo_api (\<lambda>rq. Inr list_body)"


definition api_single :: "(unit, unit) API" where
  "api_single = demo_api (\<lambda>rq. Inr single_body)"

section \<open>Properties\<close>

subsection \<open>The dispatcher call and the operations as case distinctions\<close>

lemma makeRequest_sent:
  "sent (snd (makeRequest api m uri p w))
     = sent w @ [\<lparr>req_method = m, req_uri = uri, req_params = p\<rparr>]"
  by (simp add: makeRequest_def Let_def split: prod.splits)

lemma CustomHostnames_cases:
  "CustomHostnames api zoneID page f w =
     (case makeRequest api ''GET''
             (''/zones/'' @ zoneID @ ''/custom_hostnames'' @ CustomHostnames_query page f)
             NoParams w of
        (Inl err, w') \<Rightarrow>
          ((Some [], zero_ResultInfo, Some (Wrap err (errMakeRequestError api))), w')
      | (Inr body, w') \<Rightarrow>
          (case Unmarshal_CustomHostnameListResponse api body of
             Inl err \<Rightarrow>
               ((Some [], zero_ResultInfo, Some (Wrap err (errMakeRequestError api))), w')
           | Inr r \<Rightarrow> ((List_Result r, List_ResultInfo r, None), w')))"
  by (simp add: CustomHostnames_def Let_def split: prod.splits sum.splits)

lemma CustomHostnames_world:
  "snd (CustomHostnames api zoneID page f w) =
     snd (makeRequest api ''GET''
            (''/zones/'' @ zoneID @ ''/custom_hostnames'' @ CustomHostnames_query page f)
            NoParams w)"
  by (simp add: CustomHostnames_cases split: prod.splits sum.splits)

lemma CustomHostnameIDByName_cases:
  "CustomHostnames api zoneID 1 (zero_CustomHostname\<lparr>Hostname := hostname\<rparr>) w
     = ((chs, ri, err), w') \<Longrightarrow>
   CustomHostnameIDByName api zoneID hostname w =
     (case err of
        Some e \<Rightarrow> (('''', Some (Wrap e ''CustomHostnames command failed'')), w')
      | None \<Rightarrow> (CustomHostnameIDByName_scan hostname (elems chs), w'))"
  by (simp add: CustomHostnameIDByName_def)

subsection \<open>The scan of the listed hostnames\<close>

lemma scan_found:
  "\<forall>x \<in> set pre. Hostname x \<noteq> hostname \<Longrightarrow> Hostname ch = hostname \<Longrightarrow>
     CustomHostnameIDByName_scan hostname (pre @ ch # post) = (ID ch, None)"
  by (induction pre) auto

lemma scan_not_found:
  "\<forall>x \<in> set chs. Hostname x \<noteq> hostname \<Longrightarrow>
     CustomHostnameIDByName_scan hostname chs
       = ('''', Some (New ''CustomHostname could not be found''))"
  by (induction chs) auto

lemma scan_some_match:
  "\<exists>x \<in> set chs. Hostname x = hostname \<Longrightarrow>
     \<exists>ch \<in> set chs. Hostname ch = hostname
        \<and> CustomHostnameIDByName_scan hostname chs = (ID ch, None)"
  by (induction chs) auto

subsection \<open>The operations on the example dispatchers\<close>

lemma makeRequest_demo:
  "makeRequest (demo_api answer) m uri p world0 =
     (answer \<lparr>req_method = m, req_uri = uri, req_params = p\<rparr>,
      \<lparr>remote = (), sent = [\<lparr>req_method = m, req_uri = uri, req_params = p\<rparr>]\<rparr>)"
  by (simp add: makeRequest_def demo_api_def world0_def Let_def)

lemma demo_api_simps:
  "errMakeRequestError (demo_api answer) = ''error from makeRequest''"
  "errUnmarshalError (demo_api answer) = ''error unmarshalling the JSON response''"
  "Unmarshal_CustomHostnameResponse_ptr (demo_api answer)
     = (\<lambda>b. map_sum id Some (demo_Unmarshal_single b))"
  "Unmarshal_CustomHostnameResponse (demo_api answer) = demo_Unmarshal_single"
  "Unmarshal_CustomHostnameListResponse (demo_api answer) = demo_Unmarshal_list"
  "Unmarshal_CustomHostnameFallbackOriginResponse_ptr (demo_api answer) = (\<lambda>b. Inl syntax_error)"
  "Unmarshal_CustomHostnameFallbackOriginResponse (demo_api answer) = (\<lambda>b. Inl syntax_error)"
  by (simp_all add: demo_api_def)

lemma demo_Unmarshal_list_simps:
  "demo_Unmarshal_list list_body =
     Inr \<lparr>List_Result = Some three_hostnames, List_Response = (),
          List_ResultInfo = \<lparr>Page = 1, PerPage = 50, TotalPages = 1, Total = 3\<rparr>\<rparr>"
  "demo_Unmarshal_list list_body51 =
     Inr \<lparr>List_Result = Some (replicate 51 zero_CustomHostname), List_Response = (),
          List_ResultInfo = zero_ResultInfo\<rparr>"
  "demo_Unmarshal_list garbage_body = Inl syntax_error"
proof -
  have "list_body51 \<noteq> list_body" "garbage_body \<noteq> list_body" "garbage_body \<noteq> list_body51"
    by (simp_all add: list_body51_def list_body_def garbage_body_def)
  then show
    "demo_Unmarshal_list list_body =
       Inr \<lparr>List_Result = Some three_hostnames, List_Response = (),
            List_ResultInfo = \<lparr>Page = 1, PerPage = 50, TotalPages = 1, Total = 3\<rparr>\<rparr>"
    "demo_Unmarshal_list list_body51 =
       Inr \<lparr>List_Result = Some (replicate 51 zero_CustomHostname), List_Response = (),
            List_ResultInfo = zero_ResultInfo\<rparr>"
    "demo_Unmarshal_list garbage_body = Inl syntax_error"
    by (simp_all add: demo_Unmarshal_list_def)
qed

lemma demo_Unmarshal_single_simps:
  "demo_Unmarshal_single single_body
     = Inr \<lparr>Result = listed ''id-2'' ''a.example.com'', Response = ()\<rparr>"
  "demo_Unmarshal_single garbage_body = Inl syntax_error"
  by (simp_all add: demo_Unmarshal_single_def single_body_def garbage_body_def)

lemma CustomHostnames_api_list:
  "CustomHostnames api_list zoneID page f world0 =
     ((Some three_hostnames, \<lparr>Page = 1, PerPage = 50, TotalPages = 1, Total = 3\<rparr>, None),
      \<lparr>remote = (),
       sent = [\<lparr>req_method = ''GET'',
                req_uri = ''/zones/'' @ zoneID @ ''/custom_hostnames''
                           @ CustomHostnames_query page f,
                req_params = NoParams\<rparr>]\<rparr>)"
  by (simp add: CustomHostnames_cases api_list_def makeRequest_demo demo_api_simps
      demo_Unmarshal_list_simps)


lemma CustomHostnames_api_down:
  "CustomHostnames api_down zoneID page f world0 =
     ((Some [], zero_ResultInfo, Some (Wrap transport_error ''error from makeRequest'')),
      \<lparr>remote = (),
       sent = [\<lparr>req_method = ''GET'',
                req_uri = ''/zones/'' @ zoneID @ ''/custom_hostnames''
                           @ CustomHostnames_query page f,
                req_params = NoParams\<rparr>]\<rparr>)"
  by (simp add: CustomHostnames_cases api_down_def makeRequest_demo demo_api_simps)

lemma CustomHostnames_api_garbled:
  "CustomHostnames api_garbled zoneID page f world0 =
     ((Some [], zero_ResultInfo, Some (Wrap syntax_error ''error from makeRequest'')),
      \<lparr>remote = (),
       sent = [\<lparr>req_method = ''GET'',
                req_uri = ''/zones/'' @ zoneID @ ''/custom_hostnames''
                           @ CustomHostnames_query page f,
                req_params = NoParams\<rparr>]\<rparr>)"
  by (simp add: CustomHostnames_cases api_garbled_def makeRequest_demo demo_api_simps
      demo_Unmarshal_list_simps)

subsection \<open>Read by name\<close>

text \<open>
  C1.  \<open>CustomHostnameIDByName\<close> makes the one call of \<open>CustomHostnames\<close> with page 1
  and the hostname as the filter, and nothing else: the world after it is the world
  after that call, in which exactly the list request has been sent.  When that call
  returns an error, the result is the empty string and the error wrapped once more.
  When it returns a list with an entry whose \<open>Hostname\<close> is the queried one, the result
  is the \<open>ID\<close> of such an entry and no error.  When the list has no such entry, the
  result is the empty string and the error "CustomHostname could not be found", which
  is not a wrapped error.
\<close>

theorem CustomHostnameIDByName_lookup:
  assumes "CustomHostnames api zoneID 1 (zero_CustomHostname\<lparr>Hostname := hostname\<rparr>) w
             = ((chs, ri, err), w')"
  shows "snd (CustomHostnameIDByName api zoneID hostname w) = w'
    \<and> sent w' = sent w @
          [\<lparr>req_method = ''GET'',
            req_uri = ''/zones/'' @ zoneID @ ''/custom_hostnames''
                       @ CustomHostnames_query 1 (zero_CustomHostname\<lparr>Hostname := hostname\<rparr>),
            req_params = NoParams\<rparr>]
    \<and> (\<forall>e. err = Some e \<longrightarrow>
          fst (CustomHostnameIDByName api zoneID hostname w)
            = ('''', Some (Wrap e ''CustomHostnames command failed'')))
    \<and> (err = None \<longrightarrow> (\<exists>x \<in> set (elems chs). Hostname x = hostname) \<longrightarrow>
          (\<exists>ch \<in> set (elems chs). Hostname ch = hostname
             \<and> fst (CustomHostnameIDByName api zoneID hostname w) = (ID ch, None)))
    \<and> (err = None \<longrightarrow> (\<forall>x \<in> set (elems chs). Hostname x \<noteq> hostname) \<longrightarrow>
          fst (CustomHostnameIDByName api zoneID hostname w)
            = ('''', Some (New ''CustomHostname could not be found'')))
    \<and> (\<forall>e m. New ''CustomHostname could not be found'' \<noteq> Wrap e m)"
proof -
  have w': "w' = snd (CustomHostnames api zoneID 1 (zero_CustomHostname\<lparr>Hostname := hostname\<rparr>) w)"
    using assms by simp
  have "sent w' = sent w @
          [\<lparr>req_method = ''GET'',
            req_uri = ''/zones/'' @ zoneID @ ''/custom_hostnames''
                       @ CustomHostnames_query 1 (zero_CustomHostname\<lparr>Hostname := hostname\<rparr>),
            req_params = NoParams\<rparr>]"
    unfolding w' CustomHostnames_world by (rule makeRequest_sent)
  moreover have "snd (CustomHostnameIDByName api zoneID hostname w) = w'"
    by (simp add: CustomHostnameIDByName_cases [OF assms] split: option.splits)
  moreover have "\<forall>e. err = Some e \<longrightarrow>
          fst (CustomHostnameIDByName api zoneID hostname w)
            = ('''', Some (Wrap e ''CustomHostnames command failed''))"
    by (simp add: CustomHostnameIDByName_cases [OF assms])
  moreover have "err = None \<longrightarrow> (\<exists>x \<in> set (elems chs). Hostname x = hostname) \<longrightarrow>
          (\<exists>ch \<in> set (elems chs). Hostname ch = hostname
             \<and> fst (CustomHostnameIDByName api zoneID hostname w) = (ID ch, None))"
    using scan_some_match [of "elems chs" hostname]
    by (auto simp: CustomHostnameIDByName_cases [OF assms])
  moreover have "err = None \<longrightarrow> (\<forall>x \<in> set (elems chs). Hostname x \<noteq> hostname) \<longrightarrow>
          fst (CustomHostnameIDByName api zoneID hostname w)
            = ('''', Some (New ''CustomHostname could not be found''))"
    using scan_not_found [of "elems chs" hostname]
    by (auto simp: CustomHostnameIDByName_cases [OF assms])
  ultimately show ?thesis by simp
qed

theorem CustomHostnameIDByName_lookup_witness:
  "fst (CustomHostnameIDByName api_list zone ''b.example.com'' world0) = (''id-1'', None)
   \<and> length (sent (snd (CustomHostnameIDByName api_list zone ''b.example.com'' world0))) = 1
   \<and> fst (CustomHostnameIDByName api_list zone ''c.example.com'' world0)
       = ('''', Some (New ''CustomHostname could not be found''))
   \<and> fst (CustomHostnameIDByName api_down zone ''b.example.com'' world0)
       = ('''', Some (Wrap (Wrap transport_error ''error from makeRequest'')
                        ''CustomHostnames command failed''))"
proof -
  note found = CustomHostnameIDByName_lookup [OF CustomHostnames_api_list,
      of zone "''b.example.com''"]
  note missing = CustomHostnameIDByName_lookup [OF CustomHostnames_api_list,
      of zone "''c.example.com''"]
  note failed = CustomHostnameIDByName_lookup [OF CustomHostnames_api_down,
      of zone "''b.example.com''"]
  have "\<exists>x \<in> set (elems (Some three_hostnames)). Hostname x = ''b.example.com''"
    by (simp add: elems_def three_hostnames_def listed_def)
  with found obtain ch where
    ch: "ch \<in> set (elems (Some three_hostnames))" "Hostname ch = ''b.example.com''"
      "fst (CustomHostnameIDByName api_list zone ''b.example.com'' world0) = (ID ch, None)"
    by blast
  from ch(1,2) have "ID ch = ''id-1''"
    by (auto simp: elems_def three_hostnames_def listed_def)
  with ch(3) have 1:
    "fst (CustomHostnameIDByName api_list zone ''b.example.com'' world0) = (''id-1'', None)"
    by simp
  from found have 2:
    "length (sent (snd (CustomHostnameIDByName api_list zone ''b.example.com'' world0))) = 1"
    by simp
  have "\<forall>x \<in> set (elems (Some three_hostnames)). Hostname x \<noteq> ''c.example.com''"
    by (simp add: elems_def three_hostnames_def listed_def)
  with missing have 3:
    "fst (CustomHostnameIDByName api_list zone ''c.example.com'' world0)
       = ('''', Some (New ''CustomHostname could not be found''))"
    by blast
  from failed have 4:
    "fst (CustomHostnameIDByName api_down zone ''b.example.com'' world0)
       = ('''', Some (Wrap (Wrap transport_error ''error from makeRequest'')
                        ''CustomHostnames command failed''))"
    by blast
  from 1 2 3 4 show ?thesis by blast
qed

text \<open>
  C10.  When the list returned to \<open>CustomHostnameIDByName\<close> has several entries with the
  queried hostname, the result is the \<open>ID\<close> of the first of them: of the entry that no
  entry with that hostname precedes.
\<close>

theorem CustomHostnameIDByName_first_match:
  assumes "CustomHostnames api zoneID 1 (zero_CustomHostname\<lparr>Hostname := hostname\<rparr>) w
             = ((chs, ri, None), w')"
    and "elems chs = pre @ ch # post"
    and "\<forall>x \<in> set pre. Hostname x \<noteq> hostname"
    and "Hostname ch = hostname"
  shows "CustomHostnameIDByName api zoneID hostname w = ((ID ch, None), w')"
  using assms(2-) by (simp add: CustomHostnameIDByName_cases [OF assms(1)] scan_found)

theorem CustomHostnameIDByName_first_match_witness:
  "elems (Some three_hostnames)
     = [listed ''id-1'' ''b.example.com''] @ listed ''id-2'' ''a.example.com''
         # [listed ''id-3'' ''a.example.com'']
   \<and> fst (CustomHostnameIDByName api_list zone ''a.example.com'' world0) = (''id-2'', None)"
proof -
  have split: "elems (Some three_hostnames)
     = [listed ''id-1'' ''b.example.com''] @ listed ''id-2'' ''a.example.com''
         # [listed ''id-3'' ''a.example.com'']"
    by (simp add: elems_def three_hostnames_def)
  have before: "\<forall>x \<in> set [listed ''id-1'' ''b.example.com'']. Hostname x \<noteq> ''a.example.com''"
    by (simp add: listed_def)
  have here: "Hostname (listed ''id-2'' ''a.example.com'') = ''a.example.com''"
    by (simp add: listed_def)
  from CustomHostnameIDByName_first_match [OF CustomHostnames_api_list split before here]
  have "fst (CustomHostnameIDByName api_list zone ''a.example.com'' world0)
          = (ID (listed ''id-2'' ''a.example.com''), None)"
    by simp
  with split show ?thesis by (simp add: listed_def)
qed

subsection \<open>List: what comes back\<close>

lemma CustomHostnames_dispatch_error:
  "fst (makeRequest api ''GET''
          (''/zones/'' @ zoneID @ ''/custom_hostnames'' @ CustomHostnames_query page f)
          NoParams w) = Inl e \<Longrightarrow>
   fst (CustomHostnames api zoneID page f w)
     = (Some [], zero_ResultInfo, Some (Wrap e (errMakeRequestError api)))"
  by (auto simp: CustomHostnames_cases split: prod.splits)

lemma CustomHostnames_decoded:
  "fst (makeRequest api ''GET''
          (''/zones/'' @ zoneID @ ''/custom_hostnames'' @ CustomHostnames_query page f)
          NoParams w) = Inr body \<Longrightarrow>
   Unmarshal_CustomHostnameListResponse api body = Inr r \<Longrightarrow>
   fst (CustomHostnames api zoneID page f w) = (List_Result r, List_ResultInfo r, None)"
  by (auto simp: CustomHostnames_cases split: prod.splits)

text \<open>
  C5.  Whenever \<open>CustomHostnames\<close> returns an error, whatever its origin, the sequence
  it returns is the empty slice, which is not nil, and the pagination data is the zero
  \<open>ResultInfo\<close>.
\<close>

theorem CustomHostnames_error_empty:
  assumes "CustomHostnames api zoneID page f w = ((chs, ri, Some e), w')"
  shows "chs = Some [] \<and> chs \<noteq> None \<and> ri = zero_ResultInfo"
  using assms by (auto simp: CustomHostnames_cases split: prod.splits sum.splits)

theorem CustomHostnames_error_empty_witness:
  "CustomHostnames api_down zone 1 zero_CustomHostname world0
     = ((Some [], zero_ResultInfo, Some (Wrap transport_error ''error from makeRequest'')),
        snd (CustomHostnames api_down zone 1 zero_CustomHostname world0))
   \<and> CustomHostnames api_garbled zone 1 zero_CustomHostname world0
     = ((Some [], zero_ResultInfo, Some (Wrap syntax_error ''error from makeRequest'')),
        snd (CustomHostnames api_garbled zone 1 zero_CustomHostname world0))"
proof -
  obtain chs ri w' where down:
    "CustomHostnames api_down zone 1 zero_CustomHostname world0
       = ((chs, ri, Some (Wrap transport_error ''error from makeRequest'')), w')"
    by (simp add: CustomHostnames_api_down)
  obtain chs2 ri2 w2 where garbled:
    "CustomHostnames api_garbled zone 1 zero_CustomHostname world0
       = ((chs2, ri2, Some (Wrap syntax_error ''error from makeRequest'')), w2)"
    by (simp add: CustomHostnames_api_garbled)
  from CustomHostnames_error_empty [OF down] CustomHostnames_error_empty [OF garbled]
    down garbled
  show ?thesis by simp
qed




text \<open>
  C4, on the list operation.  When the dispatcher answers and the body does not decode,
  \<open>CustomHostnames\<close> wraps the decoder's error with \<open>errMakeRequestError\<close>, the
  message of a failed dispatch (line 172), where every other operation of the file uses
  \<open>errUnmarshalError\<close>.
\<close>

theorem CustomHostnames_decode_error:
  assumes "fst (makeRequest api ''GET''
                  (''/zones/'' @ zoneID @ ''/custom_hostnames'' @ CustomHostnames_query page f)
                  NoParams w) = Inr body"
    and "Unmarshal_CustomHostnameListResponse api body = Inl e"
  shows "fst (CustomHostnames api zoneID page f w)
           = (Some [], zero_ResultInfo, Some (Wrap e (errMakeRequestError api)))"
  using assms by (auto simp: CustomHostnames_cases split: prod.splits)

theorem CustomHostnames_decode_error_witness:
  "fst (makeRequest api_garbled ''GET''
          (''/zones/'' @ zone @ ''/custom_hostnames''
             @ CustomHostnames_query 1 zero_CustomHostname)
          NoParams world0) = Inr garbage_body
   \<and> Unmarshal_CustomHostnameListResponse api_garbled garbage_body = Inl syntax_error
   \<and> errUnmarshalError api_garbled = ''error unmarshalling the JSON response''
   \<and> fst (CustomHostnames api_garbled zone 1 zero_CustomHostname world0)
       = (Some [], zero_ResultInfo, Some (Wrap syntax_error ''error from makeRequest''))"
proof -
  have sent: "fst (makeRequest api_garbled ''GET''
          (''/zones/'' @ zone @ ''/custom_hostnames''
             @ CustomHostnames_query 1 zero_CustomHostname)
          NoParams world0) = Inr garbage_body"
    by (simp add: api_garbled_def makeRequest_demo)
  have refused:
    "Unmarshal_CustomHostnameListResponse api_garbled garbage_body = Inl syntax_error"
    by (simp add: api_garbled_def demo_api_simps demo_Unmarshal_list_simps)
  from CustomHostnames_decode_error [OF sent refused] sent refused
  show ?thesis by (simp add: api_garbled_def demo_api_simps)
qed

subsection \<open>The single-resource operations\<close>

lemma UpdateCustomHostnameSSL_cases:
  "UpdateCustomHostnameSSL api zoneID customHostnameID ssl w =
     (case makeRequest api ''PATCH'' (''/zones/'' @ zoneID @ ''/custom_hostnames/'' @ customHostnameID)
             (SSLParams ssl) w of
        (Inl err, w') \<Rightarrow> ((None, Some (Wrap err (errMakeRequestError api))), w')
      | (Inr body, w') \<Rightarrow>
          (case Unmarshal_CustomHostnameResponse_ptr api body of
             Inl err \<Rightarrow> ((None, Some (Wrap err (errUnmarshalError api))), w')
           | Inr response \<Rightarrow> ((response, None), w')))"
  by (simp add: UpdateCustomHostnameSSL_def Let_def split: prod.splits sum.splits)

lemma DeleteCustomHostname_cases:
  "DeleteCustomHostname api zoneID customHostnameID w =
     (case makeRequest api ''DELETE'' (''/zones/'' @ zoneID @ ''/custom_hostnames/'' @ customHostnameID)
             NoParams w of
        (Inl err, w') \<Rightarrow> (Some (Wrap err (errMakeRequestError api)), w')
      | (Inr body, w') \<Rightarrow>
          (case Unmarshal_CustomHostnameResponse_ptr api body of
             Inl err \<Rightarrow> (Some (Wrap err (errUnmarshalError api)), w')
           | Inr response \<Rightarrow> (None, w')))"
  by (simp add: DeleteCustomHostname_def Let_def split: prod.splits sum.splits)

lemma CreateCustomHostname_cases:
  "CreateCustomHostname api zoneID ch w =
     (case makeRequest api ''POST'' (''/zones/'' @ zoneID @ ''/custom_hostnames'')
             (HostnameParams ch) w of
        (Inl err, w') \<Rightarrow> ((None, Some (Wrap err (errMakeRequestError api))), w')
      | (Inr body, w') \<Rightarrow>
          (case Unmarshal_CustomHostnameResponse_ptr api body of
             Inl err \<Rightarrow> ((None, Some (Wrap err (errUnmarshalError api))), w')
           | Inr response \<Rightarrow> ((response, None), w')))"
  by (simp add: CreateCustomHostname_def Let_def split: prod.splits sum.splits)

lemma CustomHostname_cases:
  "CustomHostname api zoneID customHostnameID w =
     (case makeRequest api ''GET'' (''/zones/'' @ zoneID @ ''/custom_hostnames/'' @ customHostnameID)
             NoParams w of
        (Inl err, w') \<Rightarrow> ((zero_CustomHostname, Some (Wrap err (errMakeRequestError api))), w')
      | (Inr body, w') \<Rightarrow>
          (case Unmarshal_CustomHostnameResponse api body of
             Inl err \<Rightarrow> ((zero_CustomHostname, Some (Wrap err (errUnmarshalError api))), w')
           | Inr response \<Rightarrow> ((Result response, None), w')))"
  by (simp add: CustomHostname_def Let_def split: prod.splits sum.splits)

lemma UpdateCustomHostnameFallbackOrigin_cases:
  "UpdateCustomHostnameFallbackOrigin api zoneID chfo w =
     (case makeRequest api ''PUT'' (''/zones/'' @ zoneID @ ''/custom_hostnames/fallback_origin'')
             (FallbackOriginParams chfo) w of
        (Inl err, w') \<Rightarrow> ((None, Some (Wrap err (errMakeRequestError api))), w')
      | (Inr body, w') \<Rightarrow>
          (case Unmarshal_CustomHostnameFallbackOriginResponse_ptr api body of
             Inl err \<Rightarrow> ((None, Some (Wrap err (errUnmarshalError api))), w')
           | Inr response \<Rightarrow> ((response, None), w')))"
  by (simp add: UpdateCustomHostnameFallbackOrigin_def Let_def split: prod.splits sum.splits)

lemma CustomHostnameFallbackOrigin_cases:
  "CustomHostnameFallbackOrigin api zoneID w =
     (case makeRequest api ''GET'' (''/zones/'' @ zoneID @ ''/custom_hostnames/fallback_origin'')
             NoParams w of
        (Inl err, w') \<Rightarrow>
          ((zero_CustomHostnameFallbackOrigin, Some (Wrap err (errMakeRequestError api))), w')
      | (Inr body, w') \<Rightarrow>
          (case Unmarshal_CustomHostnameFallbackOriginResponse api body of
             Inl err \<Rightarrow>
               ((zero_CustomHostnameFallbackOrigin, Some (Wrap err (errUnmarshalError api))), w')
           | Inr response \<Rightarrow> ((FO_Result response, None), w')))"
  by (simp add: CustomHostnameFallbackOrigin_def Let_def split: prod.splits sum.splits)

text \<open>
  The operations other than the list wrap a decoder's error with \<open>errUnmarshalError\<close>.
\<close>

lemma UpdateCustomHostnameSSL_decode_error:
  "fst (makeRequest api ''PATCH'' (''/zones/'' @ zoneID @ ''/custom_hostnames/'' @ customHostnameID)
          (SSLParams ssl) w) = Inr body \<Longrightarrow>
   Unmarshal_CustomHostnameResponse_ptr api body = Inl e \<Longrightarrow>
   fst (UpdateCustomHostnameSSL api zoneID customHostnameID ssl w)
     = (None, Some (Wrap e (errUnmarshalError api)))"
  by (auto simp: UpdateCustomHostnameSSL_cases split: prod.splits)

lemma CreateCustomHostname_decode_error:
  "fst (makeRequest api ''POST'' (''/zones/'' @ zoneID @ ''/custom_hostnames'')
          (HostnameParams ch) w) = Inr body \<Longrightarrow>
   Unmarshal_CustomHostnameResponse_ptr api body = Inl e \<Longrightarrow>
   fst (CreateCustomHostname api zoneID ch w) = (None, Some (Wrap e (errUnmarshalError api)))"
  by (auto simp: CreateCustomHostname_cases split: prod.splits)

lemma CustomHostname_decode_error:
  "fst (makeRequest api ''GET'' (''/zones/'' @ zoneID @ ''/custom_hostnames/'' @ customHostnameID)
          NoParams w) = Inr body \<Longrightarrow>
   Unmarshal_CustomHostnameResponse api body = Inl e \<Longrightarrow>
   fst (CustomHostname api zoneID customHostnameID w)
     = (zero_CustomHostname, Some (Wrap e (errUnmarshalError api)))"
  by (auto simp: CustomHostname_cases split: prod.splits)

lemma UpdateCustomHostnameFallbackOrigin_decode_error:
  "fst (makeRequest api ''PUT'' (''/zones/'' @ zoneID @ ''/custom_hostnames/fallback_origin'')
          (FallbackOriginParams chfo) w) = Inr body \<Longrightarrow>
   Unmarshal_CustomHostnameFallbackOriginResponse_ptr api body = Inl e \<Longrightarrow>
   fst (UpdateCustomHostnameFallbackOrigin api zoneID chfo w)
     = (None, Some (Wrap e (errUnmarshalError api)))"
  by (auto simp: UpdateCustomHostnameFallbackOrigin_cases split: prod.splits)

lemma CustomHostnameFallbackOrigin_decode_error:
  "fst (makeRequest api ''GET'' (''/zones/'' @ zoneID @ ''/custom_hostnames/fallback_origin'')
          NoParams w) = Inr body \<Longrightarrow>
   Unmarshal_CustomHostnameFallbackOriginResponse api body = Inl e \<Longrightarrow>
   fst (CustomHostnameFallbackOrigin api zoneID w)
     = (zero_CustomHostnameFallbackOrigin, Some (Wrap e (errUnmarshalError api)))"
  by (auto simp: CustomHostnameFallbackOrigin_cases split: prod.splits)

text \<open>
  C3, as the code has it.  When the dispatcher answers a delete request,
  \<open>DeleteCustomHostname\<close> returns no error exactly when the body decodes; when the body
  does not decode it returns the decoder's error wrapped with \<open>errUnmarshalError\<close>
  (lines 122--125).  The decode failure is propagated, not swallowed.
\<close>

theorem DeleteCustomHostname_decode:
  assumes "fst (makeRequest api ''DELETE''
                  (''/zones/'' @ zoneID @ ''/custom_hostnames/'' @ customHostnameID) NoParams w)
             = Inr body"
  shows "fst (DeleteCustomHostname api zoneID customHostnameID w) =
           (case Unmarshal_CustomHostnameResponse_ptr api body of
              Inl e \<Rightarrow> Some (Wrap e (errUnmarshalError api))
            | Inr response \<Rightarrow> None)"
  using assms by (auto simp: DeleteCustomHostname_cases split: prod.splits sum.splits)

theorem DeleteCustomHostname_decode_witness:
  "fst (makeRequest api_single ''DELETE'' (''/zones/'' @ zone @ ''/custom_hostnames/'' @ ''id-2'')
          NoParams world0) = Inr single_body
   \<and> fst (DeleteCustomHostname api_single zone ''id-2'' world0) = None
   \<and> fst (makeRequest api_garbled ''DELETE'' (''/zones/'' @ zone @ ''/custom_hostnames/'' @ ''id-2'')
          NoParams world0) = Inr garbage_body
   \<and> fst (DeleteCustomHostname api_garbled zone ''id-2'' world0)
       = Some (Wrap syntax_error ''error unmarshalling the JSON response'')"
proof -
  have answered:
    "fst (makeRequest api_single ''DELETE'' (''/zones/'' @ zone @ ''/custom_hostnames/'' @ ''id-2'')
            NoParams world0) = Inr single_body"
    by (simp add: api_single_def makeRequest_demo)
  have decoded: "Unmarshal_CustomHostnameResponse_ptr api_single single_body
      = Inr (Some \<lparr>Result = listed ''id-2'' ''a.example.com'', Response = ()\<rparr>)"
    by (simp add: api_single_def demo_api_simps demo_Unmarshal_single_simps)
  from DeleteCustomHostname_decode [OF answered] have ok:
    "fst (DeleteCustomHostname api_single zone ''id-2'' world0) = None"
    by (simp add: decoded)
  have garbled:
    "fst (makeRequest api_garbled ''DELETE'' (''/zones/'' @ zone @ ''/custom_hostnames/'' @ ''id-2'')
            NoParams world0) = Inr garbage_body"
    by (simp add: api_garbled_def makeRequest_demo)
  have refused: "Unmarshal_CustomHostnameResponse_ptr api_garbled garbage_body = Inl syntax_error"
    by (simp add: api_garbled_def demo_api_simps demo_Unmarshal_single_simps)
  have msg: "errUnmarshalError api_garbled = ''error unmarshalling the JSON response''"
    by (simp add: api_garbled_def demo_api_simps)
  from DeleteCustomHostname_decode [OF garbled] have bad:
    "fst (DeleteCustomHostname api_garbled zone ''id-2'' world0)
       = Some (Wrap syntax_error ''error unmarshalling the JSON response'')"
    by (simp add: refused msg)
  from answered ok garbled bad show ?thesis by blast
qed

theorem DeleteCustomHostname_swallow_counterexample:
  "fst (makeRequest api_garbled ''DELETE'' (''/zones/'' @ zone @ ''/custom_hostnames/'' @ ''id-2'')
          NoParams world0) = Inr garbage_body
   \<and> Unmarshal_CustomHostnameResponse_ptr api_garbled garbage_body = Inl syntax_error
   \<and> fst (DeleteCustomHostname api_garbled zone ''id-2'' world0)
       = Some (Wrap syntax_error ''error unmarshalling the JSON response'')
   \<and> fst (DeleteCustomHostname api_garbled zone ''id-2'' world0) \<noteq> None"
proof -
  have answered:
    "fst (makeRequest api_garbled ''DELETE'' (''/zones/'' @ zone @ ''/custom_hostnames/'' @ ''id-2'')
            NoParams world0) = Inr garbage_body"
    by (simp add: api_garbled_def makeRequest_demo)
  have refused: "Unmarshal_CustomHostnameResponse_ptr api_garbled garbage_body = Inl syntax_error"
    by (simp add: api_garbled_def demo_api_simps demo_Unmarshal_single_simps)
  have "DeleteCustomHostname api_garbled zone ''id-2'' world0
      = (Some (Wrap syntax_error ''error unmarshalling the JSON response''),
         \<lparr>remote = (),
          sent = [\<lparr>req_method = ''DELETE'',
                   req_uri = ''/zones/'' @ zone @ ''/custom_hostnames/'' @ ''id-2'',
                   req_params = NoParams\<rparr>]\<rparr>)"
    by (simp add: DeleteCustomHostname_cases api_garbled_def makeRequest_demo demo_api_simps
        demo_Unmarshal_single_simps)
  with answered refused show ?thesis by simp
qed

text \<open>
  C9.  \<open>UpdateCustomHostnameSSL\<close> sends exactly one request: a PATCH to
  \<open>/zones/{zoneID}/custom_hostnames/{customHostnameID}\<close> whose payload is the SSL record
  alone.  When the dispatcher answers and the body decodes, the result is the decoded
  response and no error.
\<close>

theorem UpdateCustomHostnameSSL_request:
  "sent (snd (UpdateCustomHostnameSSL api zoneID customHostnameID ssl w))
     = sent w @ [\<lparr>req_method = ''PATCH'',
                  req_uri = ''/zones/'' @ zoneID @ ''/custom_hostnames/'' @ customHostnameID,
                  req_params = SSLParams ssl\<rparr>]
   \<and> (\<forall>body response.
        fst (makeRequest api ''PATCH''
               (''/zones/'' @ zoneID @ ''/custom_hostnames/'' @ customHostnameID)
               (SSLParams ssl) w) = Inr body \<longrightarrow>
        Unmarshal_CustomHostnameResponse_ptr api body = Inr response \<longrightarrow>
        fst (UpdateCustomHostnameSSL api zoneID customHostnameID ssl w) = (response, None))"
proof -
  have "snd (UpdateCustomHostnameSSL api zoneID customHostnameID ssl w)
      = snd (makeRequest api ''PATCH''
               (''/zones/'' @ zoneID @ ''/custom_hostnames/'' @ customHostnameID)
               (SSLParams ssl) w)"
    by (simp add: UpdateCustomHostnameSSL_cases split: prod.splits sum.splits)
  then have "sent (snd (UpdateCustomHostnameSSL api zoneID customHostnameID ssl w))
     = sent w @ [\<lparr>req_method = ''PATCH'',
                  req_uri = ''/zones/'' @ zoneID @ ''/custom_hostnames/'' @ customHostnameID,
                  req_params = SSLParams ssl\<rparr>]"
    by (simp only: makeRequest_sent)
  moreover have "\<forall>body response.
        fst (makeRequest api ''PATCH''
               (''/zones/'' @ zoneID @ ''/custom_hostnames/'' @ customHostnameID)
               (SSLParams ssl) w) = Inr body \<longrightarrow>
        Unmarshal_CustomHostnameResponse_ptr api body = Inr response \<longrightarrow>
        fst (UpdateCustomHostnameSSL api zoneID customHostnameID ssl w) = (response, None)"
    by (auto simp: UpdateCustomHostnameSSL_cases split: prod.splits)
  ultimately show ?thesis by blast
qed

theorem UpdateCustomHostnameSSL_request_witness:
  "sent (snd (UpdateCustomHostnameSSL api_single zone ''id-2''
                (zero_CustomHostnameSSL\<lparr>Method := ''http''\<rparr>) world0))
     = [\<lparr>req_method = ''PATCH'',
         req_uri = ''/zones/'' @ zone @ ''/custom_hostnames/'' @ ''id-2'',
         req_params = SSLParams (zero_CustomHostnameSSL\<lparr>Method := ''http''\<rparr>)\<rparr>]
   \<and> fst (UpdateCustomHostnameSSL api_single zone ''id-2''
            (zero_CustomHostnameSSL\<lparr>Method := ''http''\<rparr>) world0)
       = (Some \<lparr>Result = listed ''id-2'' ''a.example.com'', Response = ()\<rparr>, None)"
proof -
  note spec = UpdateCustomHostnameSSL_request [of api_single zone "''id-2''"
      "zero_CustomHostnameSSL\<lparr>Method := ''http''\<rparr>" world0]
  have answered:
    "fst (makeRequest api_single ''PATCH'' (''/zones/'' @ zone @ ''/custom_hostnames/'' @ ''id-2'')
            (SSLParams (zero_CustomHostnameSSL\<lparr>Method := ''http''\<rparr>)) world0) = Inr single_body"
    by (simp add: api_single_def makeRequest_demo)
  have decoded: "Unmarshal_CustomHostnameResponse_ptr api_single single_body
      = Inr (Some \<lparr>Result = listed ''id-2'' ''a.example.com'', Response = ()\<rparr>)"
    by (simp add: api_single_def demo_api_simps demo_Unmarshal_single_simps)
  from spec answered decoded have
    "fst (UpdateCustomHostnameSSL api_single zone ''id-2''
            (zero_CustomHostnameSSL\<lparr>Method := ''http''\<rparr>) world0)
       = (Some \<lparr>Result = listed ''id-2'' ''a.example.com'', Response = ()\<rparr>, None)"
    by blast
  moreover from spec have
    "sent (snd (UpdateCustomHostnameSSL api_single zone ''id-2''
                (zero_CustomHostnameSSL\<lparr>Method := ''http''\<rparr>) world0))
     = sent world0 @ [\<lparr>req_method = ''PATCH'',
         req_uri = ''/zones/'' @ zone @ ''/custom_hostnames/'' @ ''id-2'',
         req_params = SSLParams (zero_CustomHostnameSSL\<lparr>Method := ''http''\<rparr>)\<rparr>]"
    by blast
  ultimately show ?thesis by (simp add: world0_def)
qed

subsection \<open>A failing dispatcher\<close>

lemma UpdateCustomHostnameSSL_dispatch_error:
  "fst (makeRequest api ''PATCH'' (''/zones/'' @ zoneID @ ''/custom_hostnames/'' @ customHostnameID)
          (SSLParams ssl) w) = Inl e \<Longrightarrow>
   fst (UpdateCustomHostnameSSL api zoneID customHostnameID ssl w)
     = (None, Some (Wrap e (errMakeRequestError api)))"
  by (auto simp: UpdateCustomHostnameSSL_cases split: prod.splits)

lemma CreateCustomHostname_dispatch_error:
  "fst (makeRequest api ''POST'' (''/zones/'' @ zoneID @ ''/custom_hostnames'')
          (HostnameParams ch) w) = Inl e \<Longrightarrow>
   fst (CreateCustomHostname api zoneID ch w) = (None, Some (Wrap e (errMakeRequestError api)))"
  by (auto simp: CreateCustomHostname_cases split: prod.splits)

lemma CustomHostname_dispatch_error:
  "fst (makeRequest api ''GET'' (''/zones/'' @ zoneID @ ''/custom_hostnames/'' @ customHostnameID)
          NoParams w) = Inl e \<Longrightarrow>
   fst (CustomHostname api zoneID customHostnameID w)
     = (zero_CustomHostname, Some (Wrap e (errMakeRequestError api)))"
  by (auto simp: CustomHostname_cases split: prod.splits)

lemma CustomHostnameIDByName_dispatch_error:
  assumes "fst (makeRequest api ''GET''
             (''/zones/'' @ zoneID @ ''/custom_hostnames''
                @ CustomHostnames_query 1 (zero_CustomHostname\<lparr>Hostname := hostname\<rparr>))
             NoParams w) = Inl e"
  shows "fst (CustomHostnameIDByName api zoneID hostname w)
     = ('''', Some (Wrap (Wrap e (errMakeRequestError api)) ''CustomHostnames command failed''))"
proof -
  obtain w' where "CustomHostnames api zoneID 1 (zero_CustomHostname\<lparr>Hostname := hostname\<rparr>) w
      = ((Some [], zero_ResultInfo, Some (Wrap e (errMakeRequestError api))), w')"
    using CustomHostnames_dispatch_error [OF assms] by (metis prod.collapse)
  from CustomHostnameIDByName_cases [OF this] show ?thesis by simp
qed

lemma UpdateCustomHostnameFallbackOrigin_dispatch_error:
  "fst (makeRequest api ''PUT'' (''/zones/'' @ zoneID @ ''/custom_hostnames/fallback_origin'')
          (FallbackOriginParams chfo) w) = Inl e \<Longrightarrow>
   fst (UpdateCustomHostnameFallbackOrigin api zoneID chfo w)
     = (None, Some (Wrap e (errMakeRequestError api)))"
  by (auto simp: UpdateCustomHostnameFallbackOrigin_cases split: prod.splits)

lemma CustomHostnameFallbackOrigin_dispatch_error:
  "fst (makeRequest api ''GET'' (''/zones/'' @ zoneID @ ''/custom_hostnames/fallback_origin'')
          NoParams w) = Inl e \<Longrightarrow>
   fst (CustomHostnameFallbackOrigin api zoneID w)
     = (zero_CustomHostnameFallbackOrigin, Some (Wrap e (errMakeRequestError api)))"
  by (auto simp: CustomHostnameFallbackOrigin_cases split: prod.splits)

lemma CustomHostnames_dispatch_error_not_nil:
  "fst (makeRequest api ''GET''
          (''/zones/'' @ zoneID @ ''/custom_hostnames'' @ CustomHostnames_query page f)
          NoParams w) = Inl e \<Longrightarrow>
   fst (fst (CustomHostnames api zoneID page f w)) \<noteq> None"
  by (simp add: CustomHostnames_dispatch_error)

text \<open>
  C6, as the code has it.  When the dispatcher returns an error \<open>e\<close>, every operation
  but the delete returns a non-nil error that wraps \<open>e\<close> with \<open>errMakeRequestError\<close> (the
  read by name wraps the list's error once more), together with the zero value of its
  result type: the nil pointer for the two updates and the create, the zero record for
  the two reads, the empty string for the read by name.  The list is the exception: its
  \<open>ResultInfo\<close> is the zero record, but its sequence is the empty slice
  \<open>[]CustomHostname{}\<close> of line 167, which is not nil and so not the zero value of a
  slice.
\<close>

theorem dispatch_error_propagated:
  "(fst (makeRequest api ''PATCH''
           (''/zones/'' @ zoneID @ ''/custom_hostnames/'' @ customHostnameID) (SSLParams ssl) w)
      = Inl e \<longrightarrow>
    fst (UpdateCustomHostnameSSL api zoneID customHostnameID ssl w)
      = (None, Some (Wrap e (errMakeRequestError api))))
   \<and> (fst (makeRequest api ''POST'' (''/zones/'' @ zoneID @ ''/custom_hostnames'')
              (HostnameParams ch) w) = Inl e \<longrightarrow>
       fst (CreateCustomHostname api zoneID ch w)
         = (None, Some (Wrap e (errMakeRequestError api))))
   \<and> (fst (makeRequest api ''GET''
              (''/zones/'' @ zoneID @ ''/custom_hostnames'' @ CustomHostnames_query page f)
              NoParams w) = Inl e \<longrightarrow>
       fst (CustomHostnames api zoneID page f w)
         = (Some [], zero_ResultInfo, Some (Wrap e (errMakeRequestError api)))
       \<and> fst (fst (CustomHostnames api zoneID page f w)) \<noteq> None)
   \<and> (fst (makeRequest api ''GET''
              (''/zones/'' @ zoneID @ ''/custom_hostnames/'' @ customHostnameID) NoParams w)
         = Inl e \<longrightarrow>
       fst (CustomHostname api zoneID customHostnameID w)
         = (zero_CustomHostname, Some (Wrap e (errMakeRequestError api))))
   \<and> (fst (makeRequest api ''GET''
              (''/zones/'' @ zoneID @ ''/custom_hostnames''
                 @ CustomHostnames_query 1 (zero_CustomHostname\<lparr>Hostname := hostname\<rparr>))
              NoParams w) = Inl e \<longrightarrow>
       fst (CustomHostnameIDByName api zoneID hostname w)
         = ('''', Some (Wrap (Wrap e (errMakeRequestError api))
                          ''CustomHostnames command failed'')))
   \<and> (fst (makeRequest api ''PUT'' (''/zones/'' @ zoneID @ ''/custom_hostnames/fallback_origin'')
              (FallbackOriginParams chfo) w) = Inl e \<longrightarrow>
       fst (UpdateCustomHostnameFallbackOrigin api zoneID chfo w)
         = (None, Some (Wrap e (errMakeRequestError api))))
   \<and> (fst (makeRequest api ''GET'' (''/zones/'' @ zoneID @ ''/custom_hostnames/fallback_origin'')
              NoParams w) = Inl e \<longrightarrow>
       fst (CustomHostnameFallbackOrigin api zoneID w)
         = (zero_CustomHostnameFallbackOrigin, Some (Wrap e (errMakeRequestError api))))"
  using UpdateCustomHostnameSSL_dispatch_error [of api zoneID customHostnameID ssl w e]
    CreateCustomHostname_dispatch_error [of api zoneID ch w e]
    CustomHostnames_dispatch_error [of api zoneID page f w e]
    CustomHostname_dispatch_error [of api zoneID customHostnameID w e]
    CustomHostnameIDByName_dispatch_error [of api zoneID hostname w e]
    UpdateCustomHostnameFallbackOrigin_dispatch_error [of api zoneID chfo w e]
    CustomHostnameFallbackOrigin_dispatch_error [of api zoneID w e]
    CustomHostnames_dispatch_error_not_nil [of api zoneID page f w e]
  by blast

theorem dispatch_error_propagated_witness:
  "fst (UpdateCustomHostnameSSL api_down zone ''id-2'' zero_CustomHostnameSSL world0)
     = (None, Some (Wrap transport_error ''error from makeRequest''))
   \<and> fst (CreateCustomHostname api_down zone (listed [] ''a.example.com'') world0)
     = (None, Some (Wrap transport_error ''error from makeRequest''))
   \<and> fst (CustomHostnames api_down zone 1 zero_CustomHostname world0)
     = (Some [], zero_ResultInfo, Some (Wrap transport_error ''error from makeRequest''))
   \<and> fst (CustomHostname api_down zone ''id-2'' world0)
     = (zero_CustomHostname, Some (Wrap transport_error ''error from makeRequest''))
   \<and> fst (CustomHostnameIDByName api_down zone ''a.example.com'' world0)
     = ('''', Some (Wrap (Wrap transport_error ''error from makeRequest'')
                      ''CustomHostnames command failed''))
   \<and> fst (UpdateCustomHostnameFallbackOrigin api_down zone
            (zero_CustomHostnameFallbackOrigin\<lparr>Origin := ''origin.example.com''\<rparr>) world0)
     = (None, Some (Wrap transport_error ''error from makeRequest''))
   \<and> fst (CustomHostnameFallbackOrigin api_down zone world0)
     = (zero_CustomHostnameFallbackOrigin, Some (Wrap transport_error ''error from makeRequest''))"
proof -
  have down: "\<And>m uri p. fst (makeRequest api_down m uri p world0) = Inl transport_error"
    by (simp add: api_down_def makeRequest_demo)
  have msg: "errMakeRequestError api_down = ''error from makeRequest''"
    by (simp add: api_down_def demo_api_simps)
  from dispatch_error_propagated [of api_down zone "''id-2''" zero_CustomHostnameSSL world0
      transport_error "listed [] ''a.example.com''" 1 zero_CustomHostname "''a.example.com''"
      "zero_CustomHostnameFallbackOrigin\<lparr>Origin := ''origin.example.com''\<rparr>"]
  show ?thesis unfolding down msg by blast
qed

theorem dispatch_error_zero_value_counterexample:
  "fst (makeRequest api_down ''GET''
          (''/zones/'' @ zone @ ''/custom_hostnames''
             @ CustomHostnames_query 1 zero_CustomHostname)
          NoParams world0) = Inl transport_error
   \<and> fst (fst (CustomHostnames api_down zone 1 zero_CustomHostname world0)) = Some []
   \<and> fst (fst (CustomHostnames api_down zone 1 zero_CustomHostname world0)) \<noteq> None"
proof -
  have "fst (makeRequest api_down ''GET''
          (''/zones/'' @ zone @ ''/custom_hostnames''
             @ CustomHostnames_query 1 zero_CustomHostname)
          NoParams world0) = Inl transport_error"
    by (simp add: api_down_def makeRequest_demo)
  moreover have
    "fst (fst (CustomHostnames api_down zone 1 zero_CustomHostname world0)) = Some []"
    by (simp add: CustomHostnames_api_down)
  ultimately show ?thesis by simp
qed

subsection \<open>The wire format of the records\<close>

text \<open>
  C7, at the zero value.  The serialisation of the zero \<open>CustomHostname\<close> is not the
  empty object: the string, slice and map fields are absent, but \<open>ssl\<close> and
  \<open>ownership_verification\<close> are written (and \<open>settings\<close> inside \<open>ssl\<close>), because
  their types are structs, which \<open>omitempty\<close> never leaves out.  Both keys are present in
  the serialisation of every \<open>CustomHostname\<close>.
\<close>

theorem marshal_zero_CustomHostname:
  "marshal_CustomHostname zero_CustomHostname
     = JObject [(''ssl'', JObject [(''settings'', JObject [])]),
                (''ownership_verification'', JObject [])]
   \<and> has_key ''ssl'' (marshal_CustomHostname ch)
   \<and> has_key ''ownership_verification'' (marshal_CustomHostname ch)
   \<and> has_key ''settings'' (marshal_CustomHostnameSSL ssl)"
  by (simp add: marshal_CustomHostname_def marshal_CustomHostnameSSL_def
      marshal_CustomHostnameSSLSettings_def marshal_CustomHostnameOwnershipVerification_def
      omitempty_string_def omitempty_strings_def omitempty_map_def omitempty_struct_def
      zero_CustomHostname_def zero_CustomHostnameSSL_def zero_CustomHostnameSSLSettings_def
      zero_CustomHostnameOwnershipVerification_def elems_def has_key_def members_def)

subsection \<open>The query string of the list request\<close>

lemma hex_digit_cases:
  assumes "k < (16::nat)"
  shows "k = 0 \<or> k = 1 \<or> k = 2 \<or> k = 3 \<or> k = 4 \<or> k = 5 \<or> k = 6 \<or> k = 7
     \<or> k = 8 \<or> k = 9 \<or> k = 10 \<or> k = 11 \<or> k = 12 \<or> k = 13 \<or> k = 14 \<or> k = 15"
  using assms by arith

lemma unhex_upperhex:
  assumes "k < 16"
  shows "unhex (upperhex ! k) = Some k"
  using hex_digit_cases [OF assms]
  by (elim disjE) (simp_all add: unhex_def upperhex_def in_range_def)

lemma of_char_nibbles:
  "(of_char c :: nat) div 16 < 16" "(of_char c :: nat) mod 16 < 16"
proof -
  have "(of_char c :: nat) < 16 * 16"
    using nat_of_char_less_256 [of c] by simp
  then show "(of_char c :: nat) div 16 < 16"
    by (simp only: less_mult_imp_div_less)
  show "(of_char c :: nat) mod 16 < 16"
    by simp
qed

lemma shouldEscape_marks: "shouldEscape (CHR ''%'')" "shouldEscape (CHR ''+'')"
  "shouldEscape (CHR ''&'')" "shouldEscape (CHR ''='')" "shouldEscape (CHR '' '')"
  by (simp_all add: shouldEscape_def alphanum_def in_range_def)

lemma QueryUnescape_escape_byte:
  "QueryUnescape (escape_byte c @ t) = map_option ((#) c) (QueryUnescape t)"
proof (cases "c = CHR '' ''")
  case True
  then show ?thesis by (simp add: escape_byte_def)
next
  case False
  show ?thesis
  proof (cases "shouldEscape c")
    case True
    with False show ?thesis
      by (simp add: escape_byte_def unhex_upperhex of_char_nibbles)
  next
    case no: False
    with shouldEscape_marks have "c \<noteq> CHR ''%''" "c \<noteq> CHR ''+''"
      by auto
    with False no show ?thesis
      by (simp add: escape_byte_def)
  qed
qed

lemma QueryUnescape_QueryEscape: "QueryUnescape (QueryEscape s) = Some s"
proof (induction s)
  case Nil
  show ?case by (simp add: QueryEscape_def)
next
  case (Cons c s)
  have "QueryEscape (c # s) = escape_byte c @ QueryEscape s"
    by (simp add: QueryEscape_def)
  with Cons show ?case
    by (simp add: QueryUnescape_escape_byte)
qed


lemma digits_nth: "k < 10 \<Longrightarrow> digits ! k \<in> set digits"
  by (rule nth_mem) (simp add: digits_def)

lemma formatBits_digits: "set (formatBits n) \<subseteq> set digits"
proof (induction n rule: formatBits.induct)
  case (1 n)
  show ?case
  proof (cases "n < 10")
    case True
    then show ?thesis
      by (subst formatBits.simps) (simp add: digits_nth)
  next
    case False
    with 1 show ?thesis
      by (subst formatBits.simps) (simp add: digits_nth)
  qed
qed

lemma Itoa_chars: "set (Itoa i) \<subseteq> set ''-0123456789''"
proof -
  have "set digits \<subseteq> set ''-0123456789''"
    by (simp add: digits_def)
  with formatBits_digits [of "nat (- i)"] formatBits_digits [of "nat i"]
  have "set (formatBits (nat (- i))) \<subseteq> set ''-0123456789''"
    "set (formatBits (nat i)) \<subseteq> set ''-0123456789''"
    by (blast, blast)
  then show ?thesis
    by (simp add: Itoa_def)
qed

lemma shouldEscape_plain: "\<forall>c \<in> set ''-0123456789''. \<not> shouldEscape c"
  by (simp add: shouldEscape_def alphanum_def in_range_def)

lemma escape_byte_plain: "\<not> shouldEscape c \<Longrightarrow> escape_byte c = [c]"
  by (auto simp: escape_byte_def shouldEscape_def alphanum_def in_range_def)

lemma QueryEscape_plain: "\<forall>c \<in> set s. \<not> shouldEscape c \<Longrightarrow> QueryEscape s = s"
  by (induction s) (simp_all add: QueryEscape_def escape_byte_plain)

lemma QueryEscape_Itoa: "QueryEscape (Itoa i) = Itoa i"
  using Itoa_chars [of i] shouldEscape_plain by (intro QueryEscape_plain) blast

lemma QueryEscape_keys:
  "QueryEscape ''per_page'' = ''per_page''"
  "QueryEscape ''page'' = ''page''"
  "QueryEscape ''hostname'' = ''hostname''"
  "QueryEscape ''50'' = ''50''"
  by (simp_all add: QueryEscape_def escape_byte_def shouldEscape_def alphanum_def in_range_def)

lemma sorted_keys:
  "sort [''per_page'', ''page''] = [''page'', ''per_page'']"
  "sort [''per_page'', ''page'', ''hostname''] = [''hostname'', ''page'', ''per_page'']"
  by simp_all

lemma CustomHostnames_query_eq:
  "CustomHostnames_query page f =
     CHR ''?'' # (if Hostname f = [] then [] else ''hostname='' @ QueryEscape (Hostname f) @ ''&'')
       @ ''page='' @ Itoa page @ ''&per_page=50''"
  by (simp add: CustomHostnames_query_def Values_Encode_def Values_Get_def sorted_keys
      QueryEscape_keys QueryEscape_Itoa del: sort_key_simps insort_key.simps)

lemma upperhex_plain: "k < 16 \<Longrightarrow> \<not> shouldEscape (upperhex ! k)"
proof -
  assume "k < 16"
  then have "upperhex ! k \<in> set upperhex"
    by (intro nth_mem) (simp add: upperhex_def)
  moreover have "\<forall>c \<in> set upperhex. \<not> shouldEscape c"
    by (simp add: upperhex_def shouldEscape_def alphanum_def in_range_def)
  ultimately show ?thesis by blast
qed

lemma escape_byte_chars:
  assumes "x \<in> set (escape_byte c)"
  shows "x = CHR ''+'' \<or> x = CHR ''%'' \<or> \<not> shouldEscape x"
proof (cases "c = CHR '' ''")
  case True
  with assms show ?thesis by (simp add: escape_byte_def)
next
  case False
  show ?thesis
  proof (cases "shouldEscape c")
    case True
    with False assms have
      "x = CHR ''%'' \<or> x = upperhex ! (of_char c div 16) \<or> x = upperhex ! (of_char c mod 16)"
      by (simp add: escape_byte_def)
    then show ?thesis
      using upperhex_plain [OF of_char_nibbles(1) [of c]] upperhex_plain [OF of_char_nibbles(2) [of c]]
      by blast
  next
    case no: False
    with assms show ?thesis by (simp add: escape_byte_plain)
  qed
qed

lemma QueryEscape_chars:
  assumes "x \<in> set (QueryEscape s)"
  shows "x = CHR ''+'' \<or> x = CHR ''%'' \<or> \<not> shouldEscape x"
proof -
  from assms obtain c where "x \<in> set (escape_byte c)"
    by (auto simp: QueryEscape_def)
  then show ?thesis by (rule escape_byte_chars)
qed

lemma QueryEscape_no_separator:
  "CHR ''&'' \<notin> set (QueryEscape s)" "CHR ''='' \<notin> set (QueryEscape s)"
  using QueryEscape_chars [of "CHR ''&''" s] QueryEscape_chars [of "CHR ''=''" s]
    shouldEscape_marks by auto

lemma Itoa_no_separator:
  "CHR ''&'' \<notin> set (Itoa i)" "CHR ''='' \<notin> set (Itoa i)"
  "CHR ''%'' \<notin> set (Itoa i)" "CHR ''+'' \<notin> set (Itoa i)"
  using Itoa_chars [of i] by auto

lemma split_on_none: "c \<notin> set p \<Longrightarrow> split_on c p = [p]"
  by (induction p) auto

lemma split_on_first: "c \<notin> set p \<Longrightarrow> split_on c (p @ c # rest) = p # split_on c rest"
  by (induction p) auto

lemma cut_eq_first: "CHR ''='' \<notin> set k \<Longrightarrow> cut_eq (k @ CHR ''='' # v) = (k, v)"
  by (induction k) (auto simp: cut_eq_def)

lemma QueryUnescape_plain:
  "CHR ''%'' \<notin> set s \<Longrightarrow> CHR ''+'' \<notin> set s \<Longrightarrow> QueryUnescape s = Some s"
  by (induction s) auto

lemma read_param_escaped:
  assumes "CHR ''='' \<notin> set k" "CHR ''%'' \<notin> set k" "CHR ''+'' \<notin> set k"
  shows "read_param (k @ CHR ''='' # QueryEscape v) = Some (k, v)"
  using assms by (simp add: read_param_def cut_eq_first QueryUnescape_plain QueryUnescape_QueryEscape)

lemma read_param_plain:
  assumes "CHR ''='' \<notin> set k" "CHR ''%'' \<notin> set k" "CHR ''+'' \<notin> set k"
    "CHR ''%'' \<notin> set v" "CHR ''+'' \<notin> set v"
  shows "read_param (k @ CHR ''='' # v) = Some (k, v)"
  using assms by (simp add: read_param_def cut_eq_first QueryUnescape_plain)

lemma query_split:
  "split_on CHR ''&''
     ((if h = [] then [] else ''hostname='' @ QueryEscape h @ ''&'')
        @ ''page='' @ Itoa page @ ''&per_page=50'')
   = (if h = [] then [] else [''hostname='' @ QueryEscape h])
       @ [''page='' @ Itoa page, ''per_page=50'']"
proof -
  have tail: "split_on CHR ''&'' (''page='' @ Itoa page @ ''&per_page=50'')
      = [''page='' @ Itoa page, ''per_page=50'']"
    using split_on_first [of "CHR ''&''" "''page='' @ Itoa page" "''per_page=50''"]
    by (simp add: Itoa_no_separator split_on_none)
  show ?thesis
  proof (cases "h = []")
    case True
    with tail show ?thesis by simp
  next
    case False
    have "split_on CHR ''&'' ((''hostname='' @ QueryEscape h) @ CHR ''&''
              # (''page='' @ Itoa page @ ''&per_page=50''))
        = (''hostname='' @ QueryEscape h) # split_on CHR ''&'' (''page='' @ Itoa page @ ''&per_page=50'')"
      by (rule split_on_first) (simp add: QueryEscape_no_separator)
    with False tail show ?thesis by simp
  qed
qed


lemma read_query_eq:
  "read_query ((if h = [] then [] else ''hostname='' @ QueryEscape h @ ''&'')
        @ ''page='' @ Itoa page @ ''&per_page=50'')
   = Some ((if h = [] then [] else [(''hostname'', h)])
             @ [(''page'', Itoa page), (''per_page'', ''50'')])"
proof -
  have host: "read_param (''hostname'' @ CHR ''='' # QueryEscape h) = Some (''hostname'', h)"
    by (rule read_param_escaped) simp_all
  have page: "read_param (''page'' @ CHR ''='' # Itoa page) = Some (''page'', Itoa page)"
    by (rule read_param_plain) (simp_all add: Itoa_no_separator)
  have per_page: "read_param (''per_page'' @ CHR ''='' # ''50'') = Some (''per_page'', ''50'')"
    by (rule read_param_plain) simp_all
  from host page per_page show ?thesis
    unfolding read_query_def query_split by simp
qed

lemma digit_cases:
  assumes "k < (10::nat)"
  shows "k = 0 \<or> k = 1 \<or> k = 2 \<or> k = 3 \<or> k = 4 \<or> k = 5 \<or> k = 6 \<or> k = 7
     \<or> k = 8 \<or> k = 9"
  using assms by arith

lemma digit_value_digits:
  assumes "k < 10"
  shows "digit_value (digits ! k) = Some k"
  using digit_cases [OF assms]
  by (elim disjE) (simp_all add: digit_value_def digits_def in_range_def)

lemma parse_digits_snoc:
  "parse_digits acc (s @ [c]) =
     (case parse_digits acc s of
        None \<Rightarrow> None
      | Some a \<Rightarrow> (case digit_value c of None \<Rightarrow> None | Some d \<Rightarrow> Some (10 * a + d)))"
  by (induction s arbitrary: acc) (auto split: option.splits)

lemma parse_digits_formatBits: "parse_digits 0 (formatBits n) = Some n"
proof (induction n rule: formatBits.induct)
  case (1 n)
  show ?case
  proof (cases "n < 10")
    case True
    then show ?thesis
      by (subst formatBits.simps) (simp add: digit_value_digits)
  next
    case False
    with 1 have "parse_digits 0 (formatBits (n div 10)) = Some (n div 10)"
      by simp
    with False show ?thesis
      by (subst formatBits.simps) (simp add: parse_digits_snoc digit_value_digits)
  qed
qed

lemma formatBits_first:
  "\<exists>c s. formatBits n = c # s \<and> c \<in> set digits"
proof -
  have "formatBits n \<noteq> []"
    by (subst formatBits.simps) simp
  then obtain c s where "formatBits n = c # s"
    by (cases "formatBits n") auto
  with formatBits_digits [of n] show ?thesis by auto
qed

lemma Atoi_Itoa: "Atoi (Itoa i) = Some i"
proof (cases "i < 0")
  case True
  from formatBits_first [of "nat (- i)"] have "formatBits (nat (- i)) \<noteq> []"
    by auto
  with True show ?thesis
    by (simp add: Atoi_def Itoa_def parse_digits_formatBits)
next
  case False
  from formatBits_first [of "nat i"] obtain c s where
    cs: "formatBits (nat i) = c # s" "c \<in> set digits"
    by blast
  from cs(2) have "c \<noteq> CHR ''-''" "c \<noteq> CHR ''+''"
    by (auto simp: digits_def)
  with False cs(1) parse_digits_formatBits [of "nat i"] show ?thesis
    by (simp add: Atoi_def Itoa_def)
qed

lemma in_range_chars:
  assumes "in_range lo hi c"
  shows "c \<in> set (map char_of [of_char lo ..< Suc (of_char hi) :: nat])"
proof -
  from assms have "(of_char c :: nat) \<in> {of_char lo .. of_char hi}"
    by (simp add: in_range_def)
  then have "(of_char c :: nat) \<in> set [of_char lo ..< Suc (of_char hi)]"
    by (simp only: atLeastAtMost_upt)
  then have "char_of (of_char c :: nat) \<in> char_of ` set [of_char lo ..< Suc (of_char hi) :: nat]"
    by (rule imageI)
  then show ?thesis
    by (simp only: char_of_char set_map)
qed

lemma ranges_spelled:
  "map char_of [of_char (CHR ''a'') ..< Suc (of_char (CHR ''z'')) :: nat]
     = ''abcdefghijklmnopqrstuvwxyz''"
  "map char_of [of_char (CHR ''A'') ..< Suc (of_char (CHR ''Z'')) :: nat]
     = ''ABCDEFGHIJKLMNOPQRSTUVWXYZ''"
  "map char_of [of_char (CHR ''0'') ..< Suc (of_char (CHR ''9'')) :: nat] = ''0123456789''"
  by code_simp+

lemma component_bytes_set:
  "set component_bytes =
     set ''ABCDEFGHIJKLMNOPQRSTUVWXYZ'' \<union> set ''abcdefghijklmnopqrstuvwxyz''
     \<union> set ''0123456789'' \<union> set ''-_.~'' \<union> set ''%+''"
  by (simp only: component_bytes_def set_append Un_assoc)

lemma not_shouldEscape_cases:
  assumes "\<not> shouldEscape c"
  shows "in_range (CHR ''a'') (CHR ''z'') c \<or> in_range (CHR ''A'') (CHR ''Z'') c
     \<or> in_range (CHR ''0'') (CHR ''9'') c \<or> c \<in> set ''-_.~''"
proof (rule ccontr)
  assume neg: "\<not> ?thesis"
  from neg have "\<not> alphanum c"
    unfolding alphanum_def by blast
  moreover from neg have "c \<notin> set ''-_.~''"
    by blast
  ultimately have "shouldEscape c"
    by (simp only: shouldEscape_def if_False if_True)
  with assms show False by contradiction
qed

lemma plain_component:
  assumes "\<not> shouldEscape c"
  shows "c \<in> set component_bytes"
proof -
  from not_shouldEscape_cases [OF assms]
  consider "in_range (CHR ''a'') (CHR ''z'') c" | "in_range (CHR ''A'') (CHR ''Z'') c"
    | "in_range (CHR ''0'') (CHR ''9'') c" | "c \<in> set ''-_.~''"
    by blast
  then show ?thesis
  proof cases
    case 1
    from in_range_chars [OF this] have "c \<in> set ''abcdefghijklmnopqrstuvwxyz''"
      by (simp only: ranges_spelled)
    then show ?thesis unfolding component_bytes_set by blast
  next
    case 2
    from in_range_chars [OF this] have "c \<in> set ''ABCDEFGHIJKLMNOPQRSTUVWXYZ''"
      by (simp only: ranges_spelled)
    then show ?thesis unfolding component_bytes_set by blast
  next
    case 3
    from in_range_chars [OF this] have "c \<in> set ''0123456789''"
      by (simp only: ranges_spelled)
    then show ?thesis unfolding component_bytes_set by blast
  next
    case 4
    then show ?thesis unfolding component_bytes_set by blast
  qed
qed

lemma QueryEscape_component: "set (QueryEscape s) \<subseteq> set component_bytes"
proof
  fix x
  assume "x \<in> set (QueryEscape s)"
  then have "x = CHR ''+'' \<or> x = CHR ''%'' \<or> \<not> shouldEscape x"
    by (rule QueryEscape_chars)
  moreover have "CHR ''+'' \<in> set ''%+''" "CHR ''%'' \<in> set ''%+''"
    by simp_all
  then have "CHR ''+'' \<in> set component_bytes" "CHR ''%'' \<in> set component_bytes"
    unfolding component_bytes_set by blast+
  ultimately show "x \<in> set component_bytes"
    using plain_component by blast
qed

lemma digits_nth_nonzero:
  assumes "0 < k" "k < 10"
  shows "digits ! k \<noteq> CHR ''0''"
  using digit_cases [OF assms(2)] assms(1)
  by (elim disjE) (simp_all add: digits_def)

lemma formatBits_leading:
  "0 < n \<Longrightarrow> \<exists>c s. formatBits n = c # s \<and> c \<noteq> CHR ''0''"
proof (induction n rule: formatBits.induct)
  case (1 n)
  show ?case
  proof (cases "n < 10")
    case True
    with 1(2) show ?thesis
      by (subst formatBits.simps) (simp add: digits_nth_nonzero)
  next
    case False
    then have "0 < n div 10" by simp
    with 1(1) False obtain c s where "formatBits (n div 10) = c # s" "c \<noteq> CHR ''0''"
      by blast
    with False show ?thesis
      by (subst formatBits.simps) simp
  qed
qed

lemma formatBits_canonical: "canonical_digits (formatBits n)"
proof -
  have all_digits: "list_all (\<lambda>c. c \<in> set ''0123456789'') (formatBits n)"
    using formatBits_digits [of n] unfolding list_all_iff digits_def by blast
  show ?thesis
  proof (cases "n < 10")
    case True
    then have "formatBits n = [digits ! n]"
      by (subst formatBits.simps) simp
    with all_digits show ?thesis
      by (simp add: canonical_digits_def)
  next
    case False
    then have "0 < n" by simp
    from formatBits_leading [OF this] obtain c s where
      cs: "formatBits n = c # s" "c \<noteq> CHR ''0''"
      by blast
    with all_digits show ?thesis
      by (simp add: canonical_digits_def split: list.splits)
  qed
qed

lemma Itoa_canonical:
  "\<exists>ds. canonical_digits ds \<and> parse_digits 0 ds = Some (nat \<bar>i\<bar>)
        \<and> Itoa i = (if i < 0 then CHR ''-'' # ds else ds)"
proof (cases "i < 0")
  case True
  then have abs: "nat (- i) = nat \<bar>i\<bar>" by simp
  from True have "Itoa i = CHR ''-'' # formatBits (nat (- i))"
    by (simp add: Itoa_def)
  with True have "canonical_digits (formatBits (nat (- i)))
      \<and> parse_digits 0 (formatBits (nat (- i))) = Some (nat \<bar>i\<bar>)
      \<and> Itoa i = (if i < 0 then CHR ''-'' # formatBits (nat (- i)) else formatBits (nat (- i)))"
    by (simp only: formatBits_canonical parse_digits_formatBits abs if_True simp_thms)
  then show ?thesis by (rule exI)
next
  case False
  then have abs: "nat i = nat \<bar>i\<bar>" by simp
  from False have "Itoa i = formatBits (nat i)"
    by (simp add: Itoa_def)
  with False have "canonical_digits (formatBits (nat i))
      \<and> parse_digits 0 (formatBits (nat i)) = Some (nat \<bar>i\<bar>)
      \<and> Itoa i = (if i < 0 then CHR ''-'' # formatBits (nat i) else formatBits (nat i))"
    by (simp only: formatBits_canonical parse_digits_formatBits abs if_False simp_thms)
  then show ?thesis by (rule exI)
qed

text \<open>
  C2.  The one request \<open>CustomHostnames\<close> sends carries the query string of lines
  156--162.  Cut at its \<open>&\<close> signs, the query string consists of exactly: the parameter
  \<open>hostname=\<close> followed by a value \<open>hv\<close>, once, if and only if the filter's \<open>Hostname\<close>
  is not the empty string; then \<open>page=\<close> followed by a value \<open>pv\<close>; then
  \<open>per_page=50\<close>.

  The page value \<open>pv\<close> is the decimal rendering of the page argument: a minus sign exactly
  when the page is negative, then a canonical run of digits whose value is the absolute
  value of the page, and \<open>Atoi\<close> reads \<open>pv\<close> back to the page.

  The hostname value \<open>hv\<close> is URL-encoded: it holds only unreserved bytes, \<open>%\<close> and
  \<open>+\<close> (so none of \<open>& = # ? /\<close> or a space), and \<open>QueryUnescape\<close> turns it back into
  the filter's hostname.
\<close>

theorem CustomHostnames_query_string:
  "sent (snd (CustomHostnames api zoneID page f w))
     = sent w @ [\<lparr>req_method = ''GET'',
                  req_uri = ''/zones/'' @ zoneID @ ''/custom_hostnames''
                             @ CustomHostnames_query page f,
                  req_params = NoParams\<rparr>]
   \<and> (\<exists>q hv pv ds.
        CustomHostnames_query page f = CHR ''?'' # q
        \<and> split_on CHR ''&'' q
            = (if Hostname f = '''' then [] else [''hostname='' @ hv])
                @ [''page='' @ pv, ''per_page=50'']
        \<and> read_query q
            = Some ((if Hostname f = '''' then [] else [(''hostname'', Hostname f)])
                      @ [(''page'', pv), (''per_page'', ''50'')])
        \<and> pv = Itoa page
        \<and> pv = (if page < 0 then CHR ''-'' # ds else ds)
        \<and> canonical_digits ds
        \<and> parse_digits 0 ds = Some (nat \<bar>page\<bar>)
        \<and> Atoi pv = Some page
        \<and> hv = QueryEscape (Hostname f)
        \<and> set hv \<subseteq> set component_bytes
        \<and> QueryUnescape hv = Some (Hostname f))"
proof -
  have trace: "sent (snd (CustomHostnames api zoneID page f w))
     = sent w @ [\<lparr>req_method = ''GET'',
                  req_uri = ''/zones/'' @ zoneID @ ''/custom_hostnames''
                             @ CustomHostnames_query page f,
                  req_params = NoParams\<rparr>]"
    unfolding CustomHostnames_world by (rule makeRequest_sent)
  obtain ds where ds: "canonical_digits ds" "parse_digits 0 ds = Some (nat \<bar>page\<bar>)"
    "Itoa page = (if page < 0 then CHR ''-'' # ds else ds)"
    using Itoa_canonical [of page] by blast
  define q where "q = (if Hostname f = [] then [] else ''hostname='' @ QueryEscape (Hostname f) @ ''&'')
       @ ''page='' @ Itoa page @ ''&per_page=50''"
  have 1: "CustomHostnames_query page f = CHR ''?'' # q"
    unfolding q_def by (rule CustomHostnames_query_eq)
  have 2: "split_on CHR ''&'' q
            = (if Hostname f = '''' then [] else [''hostname='' @ QueryEscape (Hostname f)])
                @ [''page='' @ Itoa page, ''per_page=50'']"
    unfolding q_def by (rule query_split)
  have 3: "read_query q
            = Some ((if Hostname f = '''' then [] else [(''hostname'', Hostname f)])
                      @ [(''page'', Itoa page), (''per_page'', ''50'')])"
    unfolding q_def by (rule read_query_eq)
  have "CustomHostnames_query page f = CHR ''?'' # q
        \<and> split_on CHR ''&'' q
            = (if Hostname f = '''' then [] else [''hostname='' @ QueryEscape (Hostname f)])
                @ [''page='' @ Itoa page, ''per_page=50'']
        \<and> read_query q
            = Some ((if Hostname f = '''' then [] else [(''hostname'', Hostname f)])
                      @ [(''page'', Itoa page), (''per_page'', ''50'')])
        \<and> Itoa page = Itoa page
        \<and> Itoa page = (if page < 0 then CHR ''-'' # ds else ds)
        \<and> canonical_digits ds
        \<and> parse_digits 0 ds = Some (nat \<bar>page\<bar>)
        \<and> Atoi (Itoa page) = Some page
        \<and> QueryEscape (Hostname f) = QueryEscape (Hostname f)
        \<and> set (QueryEscape (Hostname f)) \<subseteq> set component_bytes
        \<and> QueryUnescape (QueryEscape (Hostname f)) = Some (Hostname f)"
    using 1 2 3 ds Atoi_Itoa [of page] QueryEscape_component [of "Hostname f"]
      QueryUnescape_QueryEscape [of "Hostname f"]
    by blast
  then have "\<exists>q hv pv ds.
        CustomHostnames_query page f = CHR ''?'' # q
        \<and> split_on CHR ''&'' q
            = (if Hostname f = '''' then [] else [''hostname='' @ hv])
                @ [''page='' @ pv, ''per_page=50'']
        \<and> read_query q
            = Some ((if Hostname f = '''' then [] else [(''hostname'', Hostname f)])
                      @ [(''page'', pv), (''per_page'', ''50'')])
        \<and> pv = Itoa page
        \<and> pv = (if page < 0 then CHR ''-'' # ds else ds)
        \<and> canonical_digits ds
        \<and> parse_digits 0 ds = Some (nat \<bar>page\<bar>)
        \<and> Atoi pv = Some page
        \<and> hv = QueryEscape (Hostname f)
        \<and> set hv \<subseteq> set component_bytes
        \<and> QueryUnescape hv = Some (Hostname f)"
    by (intro exI)
  with trace show ?thesis by (rule conjI)
qed

theorem CustomHostnames_query_string_witness:
  "split_on CHR ''&'' (tl (CustomHostnames_query 37 (listed [] ''a b&c.example.com'')))
     = [''hostname=a+b%26c.example.com'', ''page=37'', ''per_page=50'']
   \<and> Atoi ''37'' = Some 37
   \<and> set ''a+b%26c.example.com'' \<subseteq> set component_bytes
   \<and> QueryUnescape ''a+b%26c.example.com'' = Some ''a b&c.example.com''
   \<and> split_on CHR ''&'' (tl (CustomHostnames_query 1 zero_CustomHostname))
     = [''page=1'', ''per_page=50'']"
proof -
  have esc: "QueryEscape ''a b&c.example.com'' = ''a+b%26c.example.com''"
    by (simp add: QueryEscape_def escape_byte_def shouldEscape_def alphanum_def in_range_def
        upperhex_def)
  have num: "Itoa 37 = ''37''" "Itoa 1 = ''1''"
    by (simp_all add: Itoa_def formatBits.simps digits_def)
  have host: "Hostname (listed [] ''a b&c.example.com'') = ''a b&c.example.com''"
    "Hostname zero_CustomHostname = ''''"
    by (simp_all add: listed_def zero_CustomHostname_def)
  from CustomHostnames_query_string [of api_list zone 37 "listed [] ''a b&c.example.com''" world0]
  obtain q hv pv where q:
    "CustomHostnames_query 37 (listed [] ''a b&c.example.com'') = CHR ''?'' # q"
    "split_on CHR ''&'' q
       = (if Hostname (listed [] ''a b&c.example.com'') = '''' then [] else [''hostname='' @ hv])
         @ [''page='' @ pv, ''per_page=50'']"
    "pv = Itoa 37" "Atoi pv = Some 37"
    "hv = QueryEscape (Hostname (listed [] ''a b&c.example.com''))"
    "set hv \<subseteq> set component_bytes"
    "QueryUnescape hv = Some (Hostname (listed [] ''a b&c.example.com''))"
    by blast
  from CustomHostnames_query_string [of api_list zone 1 zero_CustomHostname world0]
  obtain q' hv' pv' where q':
    "CustomHostnames_query 1 zero_CustomHostname = CHR ''?'' # q'"
    "split_on CHR ''&'' q'
       = (if Hostname zero_CustomHostname = '''' then [] else [''hostname='' @ hv'])
         @ [''page='' @ pv', ''per_page=50'']"
    "pv' = Itoa 1"
    by blast
  from q(3) have pv: "pv = ''37''" by (simp only: num)
  from q(5) have hv: "hv = ''a+b%26c.example.com''" by (simp only: host esc)
  from q'(3) have pv': "pv' = ''1''" by (simp only: num)
  have a: "split_on CHR ''&'' (tl (CustomHostnames_query 37 (listed [] ''a b&c.example.com'')))
     = [''hostname=a+b%26c.example.com'', ''page=37'', ''per_page=50'']"
    using q(1,2) by (simp add: host pv hv)
  have b: "Atoi ''37'' = Some 37"
    using q(4) by (simp only: pv)
  have c: "set ''a+b%26c.example.com'' \<subseteq> set component_bytes"
    using q(6) by (simp only: hv)
  have d: "QueryUnescape ''a+b%26c.example.com'' = Some ''a b&c.example.com''"
    using q(7) by (simp only: hv host)
  have e: "split_on CHR ''&'' (tl (CustomHostnames_query 1 zero_CustomHostname))
     = [''page=1'', ''per_page=50'']"
    using q'(1,2) by (simp add: host pv')
  from a b c d e show ?thesis by blast
qed

end
